theory Spec2Isabelle
  imports Main "HOL-Library.Sublist"
begin

section \<open>Strings and numbers of the JavaScript\<close>

text \<open>
  A JavaScript string is modelled as a \<^typ>\<open>string\<close>, a list of 8-bit characters: the
  code units below 256. A Number that holds an integer (a session id, the session counter,
  a time in milliseconds) is modelled as an \<^typ>\<open>int\<close>. The session counter and the
  clock stay below \<open>2 ^ 53\<close>, where every integer is a Number and \<open>+\<close> is exact. The
  digits of an admin command may denote any integer: \<open>parseInt\<close> returns the double next
  to it, and a template literal prints a double by its shortest decimal text.
\<close>

definition is_space :: "char \<Rightarrow> bool" where
  \<comment> \<open>the white space of \<open>String.prototype.trim\<close>, of \<open>\s\<close> and of \<open>parseInt\<close>\<close>
  "is_space c \<longleftrightarrow>
     c \<in> set [CHR 0x09, CHR 0x0A, CHR 0x0B, CHR 0x0C, CHR 0x0D, CHR 0x20, CHR 0xA0]"

definition is_lt :: "char \<Rightarrow> bool" where
  \<comment> \<open>the line terminators, which \<open>.\<close> of a regular expression does not match\<close>
  "is_lt c \<longleftrightarrow> c \<in> set [CHR 0x0A, CHR 0x0D]"

definition is_hex :: "char \<Rightarrow> bool" where
  \<comment> \<open>the character class \<open>[0-9A-Fa-f]\<close>\<close>
  "is_hex c \<longleftrightarrow> c \<in> set ''0123456789ABCDEFabcdef''"

definition trim :: "string \<Rightarrow> string" where
  "trim s = rev (dropWhile is_space (rev (dropWhile is_space s)))"

fun indexOf :: "string \<Rightarrow> string \<Rightarrow> nat option" where
  \<comment> \<open>\<open>out.indexOf(opt)\<close>: the first position of \<open>opt\<close> in \<open>out\<close>, \<open>None\<close> for \<open>-1\<close>\<close>
  "indexOf [] opt = (if opt = [] then Some 0 else None)"
| "indexOf (c # cs) opt =
     (if prefix opt (c # cs) then Some 0 else map_option Suc (indexOf cs opt))"

fun split_comma :: "string \<Rightarrow> string list" where
  \<comment> \<open>\<open>str.split(",")\<close>\<close>
  "split_comma [] = [[]]"
| "split_comma (c # cs) =
     (if c = CHR '','' then [] # split_comma cs
      else (case split_comma cs of [] \<Rightarrow> [[c]] | x # xs \<Rightarrow> (c # x) # xs))"

definition digit_char :: "nat \<Rightarrow> char" where
  "digit_char d = ''0123456789'' ! (d mod 10)"

function decimal_digits :: "int \<Rightarrow> string" where
  \<comment> \<open>the decimal digits of an integer that is not negative\<close>
  "decimal_digits n = (if n < 10 then [digit_char (nat n)]
                 else decimal_digits (n div 10) @ [digit_char (nat (n mod 10))])"
  by pat_completeness auto
termination
  by (relation "measure nat") auto

declare decimal_digits.simps [simp del]

function bit_length :: "int \<Rightarrow> nat" where
  \<comment> \<open>the number of binary digits of a positive integer\<close>
  "bit_length v = (if v \<le> 0 then 0 else Suc (bit_length (v div 2)))"
  by pat_completeness auto
termination
  by (relation "measure nat") auto

declare bit_length.simps [simp del]

definition to_double :: "int \<Rightarrow> int" where
  \<comment> \<open>the double next to an integer that is not negative: the integer itself below
     \<open>2 ^ 53\<close>, above it the nearest integer with 53 significant binary digits, the one
     with the even significand when two are equally near. A value of \<open>2 ^ 1024\<close> stands
     for a result beyond the largest double.\<close>
  "to_double v =
     (if v < 9007199254740992 then v
      else (let e = bit_length v - 53;
                q = v div 2 ^ e;
                r = v mod 2 ^ e;
                h = 2 ^ (e - 1)
            in (if h < r \<or> (r = h \<and> odd q) then q + 1 else q) * 2 ^ e))"

fun shortest :: "int \<Rightarrow> nat \<Rightarrow> int" where
  \<comment> \<open>\<open>Number::toString\<close> chooses the fewest significant decimal digits that still denote
     the double \<open>d\<close>: the first multiple of \<open>10 ^ p\<close> that \<open>to_double\<close> takes to \<open>d\<close>,
     for \<open>p\<close> counting down; the nearer one of two, the one with the even digit of two
     equally near\<close>
  "shortest d 0 = d"
| "shortest d (Suc p) =
     (let m = 10 ^ Suc p;
          lo = (d div m) * m;
          hi = lo + m;
          l = (to_double lo = d);
          h = (to_double hi = d)
      in if l \<and> h then
           (if d - lo < hi - d then lo else if hi - d < d - lo then hi
            else if even (lo div m) then lo else hi)
         else if l then lo else if h then hi else shortest d p)"

definition exponential :: "string \<Rightarrow> string" where
  \<comment> \<open>the digits \<open>ds\<close> of an integer of more than 21 digits in the form \<open>d.ddde+n\<close>\<close>
  "exponential ds =
     (let sig = rev (dropWhile (\<lambda>c. c = CHR ''0'') (rev ds))
      in take 1 sig @ (if length sig = 1 then [] else CHR ''.'' # drop 1 sig)
         @ ''e+'' @ decimal_digits (int (length ds) - 1))"

definition number_digits :: "int \<Rightarrow> string" where
  \<comment> \<open>the text of a double that holds the integer \<open>d\<close>, not negative\<close>
  "number_digits d =
     (if d \<le> 9007199254740992 then decimal_digits d
      else (let ds = decimal_digits (shortest d (length (decimal_digits d) - 1))
            in if length ds \<le> 21 then ds else exponential ds))"

definition show_int :: "int \<Rightarrow> string" where
  \<comment> \<open>the text of a Number that holds the integer \<open>i\<close>, as a template literal prints it\<close>
  "show_int i = (if i < 0 then CHR ''-'' # number_digits (- i) else number_digits i)"

definition pad2 :: "int \<Rightarrow> string" where
  \<comment> \<open>a two-digit field of \<open>format("HH:mm:ss")\<close>; its argument is in \<open>0..59\<close>\<close>
  "pad2 i = [digit_char (nat i div 10), digit_char (nat i)]"

datatype number = NaN | Fin int | Infinity | NegInfinity

definition number_text :: "number \<Rightarrow> string" where
  \<comment> \<open>a Number in a template literal\<close>
  "number_text x =
     (case x of NaN \<Rightarrow> ''NaN'' | Fin i \<Rightarrow> show_int i
      | Infinity \<Rightarrow> ''Infinity'' | NegInfinity \<Rightarrow> ''-Infinity'')"

definition to_number :: "bool \<Rightarrow> int \<Rightarrow> number" where
  \<comment> \<open>the Number for the integer \<open>v\<close>, not negative, under a sign: the double next to
     it, or an infinity beyond the largest double\<close>
  "to_number neg v =
     (let d = to_double v
      in if d < 2 ^ 1024 then Fin (if neg then - d else d)
         else if neg then NegInfinity else Infinity)"

definition hex_digit_val :: "char \<Rightarrow> int option" where
  "hex_digit_val c =
     map_of (zip ''0123456789abcdefABCDEF''
       [0, 1, 2, 3, 4, 5, 6, 7, 8, 9, 10, 11, 12, 13, 14, 15, 10, 11, 12, 13, 14, 15]) c"

definition is_digit_in :: "int \<Rightarrow> char \<Rightarrow> bool" where
  "is_digit_in radix c = (case hex_digit_val c of None \<Rightarrow> False | Some d \<Rightarrow> d < radix)"

definition digits_value :: "int \<Rightarrow> string \<Rightarrow> int" where
  \<comment> \<open>the integer that the digits \<open>z\<close> denote in the radix\<close>
  "digits_value radix z =
     foldl (\<lambda>acc c. acc * radix + (case hex_digit_val c of None \<Rightarrow> 0 | Some d \<Rightarrow> d)) 0 z"

definition parseInt :: "string \<Rightarrow> int \<Rightarrow> number" where
  \<comment> \<open>\<open>parseInt(str, radix)\<close> for the radix 10 or 16: the Number for the integer that
     the longest run of digits denotes, \<open>NaN\<close> when there is no digit\<close>
  "parseInt str radix =
     (let s = dropWhile is_space str;
          neg = (take 1 s = ''-'');
          s1 = (if take 1 s = ''-'' \<or> take 1 s = ''+'' then drop 1 s else s);
          s2 = (if radix = 16 \<and> (take 2 s1 = ''0x'' \<or> take 2 s1 = ''0X'') then drop 2 s1 else s1);
          z = takeWhile (is_digit_in radix) s2
      in if z = [] then NaN else to_number neg (digits_value radix z))"

definition parseId :: "string \<Rightarrow> number" where
  "parseId idStr =
     (let isHex = (prefix ''0x'' idStr \<or> list_ex (\<lambda>c. c \<in> set ''ABCDEFabcdef'') idStr)
      in parseInt idStr (if isHex then 16 else 10))"

definition formatUptime :: "int \<Rightarrow> int \<Rightarrow> string" where
  \<comment> \<open>\<open>formatUptime(startTime)\<close> at the time \<open>now\<close>; both are milliseconds\<close>
  "formatUptime now startTime =
     (let duration = now - startTime;
          days = duration div 86400000;
          timeFormat = pad2 ((duration div 3600000) mod 24) @ '':''
                       @ pad2 ((duration div 60000) mod 60) @ '':''
                       @ pad2 ((duration div 1000) mod 60)
      in show_int days @ '' days, '' @ timeFormat)"

section \<open>The session registry\<close>

text \<open>
  The socket of a device connection, as far as the server uses it: \<open>writable\<close> and
  \<open>destroyed\<close> are the flags of the Node socket, \<open>sent\<close> holds the data handed to
  \<open>socket.write\<close> and \<open>socket.end\<close>, in call order.
\<close>

record sock =
  writable :: bool
  destroyed :: bool
  sent :: "string list"

definition socket_write :: "string \<Rightarrow> sock \<Rightarrow> sock" where
  "socket_write d k = k\<lparr>sent := sent k @ [d]\<rparr>"

definition socket_end :: "string \<Rightarrow> sock \<Rightarrow> sock" where
  "socket_end d k = k\<lparr>sent := sent k @ [d], writable := False\<rparr>"

definition socket_destroy :: "sock \<Rightarrow> sock" where
  "socket_destroy k = k\<lparr>destroyed := True, writable := False\<rparr>"

text \<open>
  The session object of \<open>handleRemoteConnection\<close>. The field \<open>id\<close> is \<open>sess_id\<close>
  here. The object literal has no property \<open>wifiMac\<close>: reading it gives \<open>undefined\<close>
  until a line sets it, which is \<open>None\<close> here.
\<close>

record session =
  sess_id :: int
  status :: string
  token :: string
  mac :: string
  trace :: string
  fwVer :: string
  addr :: string
  socket :: sock
  start :: int
  bleMac :: string
  wlanFwVer :: string
  wifiMac :: "string option"

text \<open>
  The global \<open>state\<close>. \<open>sessions\<close> is the Map: its values in insertion order,
  each under the key \<open>sess_id\<close> (the object is stored under its own \<open>id\<close>);
  \<open>timers\<close> holds the ids of the sessions whose validation timer is pending;
  \<open>adminLog\<close> holds the messages handed to \<open>logToAdmins\<close>, oldest first (the function
  puts the time before each and sends it to the console and to every writable admin).
\<close>

record state =
  sessions :: "session list"
  sessionIdCounter :: int
  timers :: "int list"
  adminLog :: "string list"

definition initial_state :: state where
  "initial_state = \<lparr>sessions = [], sessionIdCounter = 1000, timers = [], adminLog = []\<rparr>"

definition logToAdmins :: "string \<Rightarrow> state \<Rightarrow> state" where
  "logToAdmins message st = st\<lparr>adminLog := adminLog st @ [message]\<rparr>"

definition findSessionById :: "state \<Rightarrow> int \<Rightarrow> session option" where
  "findSessionById st i = find (\<lambda>s. sess_id s = i) (sessions st)"

definition findSessionByNumber :: "state \<Rightarrow> number \<Rightarrow> session option" where
  \<comment> \<open>\<open>findSessionById(id)\<close> for the Number that \<open>parseId\<close> returns: the keys of the
     Map are the session ids, which \<open>NaN\<close> and the infinities never equal\<close>
  "findSessionByNumber st x = (case x of Fin i \<Rightarrow> findSessionById st i | _ \<Rightarrow> None)"

definition findSessionByMac :: "state \<Rightarrow> string \<Rightarrow> session option" where
  "findSessionByMac st m = find (\<lambda>s. mac s = m) (sessions st)"

definition sessions_set :: "session \<Rightarrow> session list \<Rightarrow> session list" where
  \<comment> \<open>\<open>state.sessions.set(sessionId, session)\<close>: a new key goes last\<close>
  "sessions_set s ss =
     (if list_ex (\<lambda>x. sess_id x = sess_id s) ss
      then map (\<lambda>x. if sess_id x = sess_id s then s else x) ss
      else ss @ [s])"

definition sessions_delete :: "int \<Rightarrow> session list \<Rightarrow> session list" where
  \<comment> \<open>\<open>state.sessions.delete(sessionId)\<close>\<close>
  "sessions_delete i ss = filter (\<lambda>x. sess_id x \<noteq> i) ss"

definition update_session :: "int \<Rightarrow> (session \<Rightarrow> session) \<Rightarrow> state \<Rightarrow> state" where
  \<comment> \<open>a handler's assignment to its session object\<close>
  "update_session i f st =
     st\<lparr>sessions := map (\<lambda>x. if sess_id x = i then f x else x) (sessions st)\<rparr>"

definition setTimeout :: "int \<Rightarrow> state \<Rightarrow> state" where
  "setTimeout i st = st\<lparr>timers := i # timers st\<rparr>"

definition clearTimeout :: "int \<Rightarrow> state \<Rightarrow> state" where
  "clearTimeout i st = st\<lparr>timers := removeAll i (timers st)\<rparr>"

section \<open>The device connection handler\<close>

text \<open>
  Each handler that \<open>handleRemoteConnection\<close> installs is a function of the id of its
  session: the closure holds the session object, which the model finds in the registry
  under this id. Node calls no handler of a socket after its \<open>close\<close> handler, which
  removes the session and clears the timer; for an id that the registry does not hold a
  handler leaves the state as it is. The keep-alive setting of the socket has no part in
  the model.
\<close>

definition new_session :: "int \<Rightarrow> string \<Rightarrow> int \<Rightarrow> session" where
  "new_session sessionId remoteAddress now =
     \<lparr>sess_id = sessionId, status = ''connect'', token = ''NA'', mac = ''NA'',
      trace = ''NA'', fwVer = ''NA'', addr = remoteAddress,
      socket = \<lparr>writable = True, destroyed = False, sent = []\<rparr>, start = now,
      bleMac = ''NA'', wlanFwVer = ''NA'', wifiMac = None\<rparr>"

definition handleRemoteConnection :: "string \<Rightarrow> int \<Rightarrow> state \<Rightarrow> state" where
  \<comment> \<open>a connection from \<open>remoteAddress\<close> is accepted at the time \<open>now\<close>\<close>
  "handleRemoteConnection remoteAddress now st =
     (let sessionId = sessionIdCounter st + 1;
          st1 = st\<lparr>sessionIdCounter := sessionId\<rparr>;
          session = new_session sessionId remoteAddress now;
          st2 = st1\<lparr>sessions := sessions_set session (sessions st1)\<rparr>;
          st3 = logToAdmins (''[CONN] ID:'' @ show_int sessionId @ '' '' @ addr session) st2
      in setTimeout sessionId st3)"

definition validationTimeout :: "int \<Rightarrow> state \<Rightarrow> state" where
  \<comment> \<open>the callback of the validation timer of the session \<open>i\<close>\<close>
  "validationTimeout i st =
     (case findSessionById st i of
        None \<Rightarrow> st
      | Some session \<Rightarrow>
          if mac session = ''NA'' then
            (let st1 = logToAdmins
                         (''[DEV NOT VALID] '' @ addr session @ '' '' @ mac session) st;
                 st2 = update_session i
                         (\<lambda>s. s\<lparr>socket := socket_end ''Not Valid\<newline>'' (socket s)\<rparr>) st1
             in update_session i (\<lambda>s. s\<lparr>socket := socket_destroy (socket s)\<rparr>) st2)
          else st)"

fun hexpairs :: "nat \<Rightarrow> (char \<Rightarrow> bool) \<Rightarrow> string \<Rightarrow> (string \<times> string) option" where
  \<comment> \<open>\<open>([0-9A-Fa-f]{2}sep?){n}[0-9A-Fa-f]{2}\<close> at the head of a string: the text matched
     and the rest. A separator that is there is taken: without it the next group, which
     starts with a hexadecimal digit, cannot match.\<close>
  "hexpairs 0 sep (a # b # cs) = (if is_hex a \<and> is_hex b then Some ([a, b], cs) else None)"
| "hexpairs (Suc n) sep (a # b # c # cs) =
     (if is_hex a \<and> is_hex b then
        (if sep c then map_option (\<lambda>(m, r). (a # b # c # m, r)) (hexpairs n sep cs)
         else map_option (\<lambda>(m, r). (a # b # m, r)) (hexpairs n sep (c # cs)))
      else None)"
| "hexpairs n sep cs = None"

fun mac_pattern :: "string \<Rightarrow> string option" where
  \<comment> \<open>\<open>line.match(/([0-9A-Fa-f]{2}[:]?){5}([0-9A-Fa-f]{2})/)\<close>: the leftmost match\<close>
  "mac_pattern [] = None"
| "mac_pattern (c # cs) =
     (case hexpairs 5 (\<lambda>x. x = CHR '':'') (c # cs) of
        Some (m, r) \<Rightarrow> Some m
      | None \<Rightarrow> mac_pattern cs)"

fun key_pattern :: "string \<Rightarrow> string \<Rightarrow> string option" where
  \<comment> \<open>\<open>line.match(/KEY(.+)/)\<close>: the group of the leftmost match\<close>
  "key_pattern key [] = None"
| "key_pattern key (c # cs) =
     (let v = takeWhile (\<lambda>x. \<not> is_lt x) (drop (length key) (c # cs))
      in if prefix key (c # cs) \<and> v \<noteq> [] then Some v else key_pattern key cs)"

definition trace_pattern :: "string \<Rightarrow> string option" where
  \<comment> \<open>\<open>line.match(/^TRACE=(.+)/)\<close>\<close>
  "trace_pattern line =
     (let v = takeWhile (\<lambda>x. \<not> is_lt x) (drop 6 line)
      in if prefix ''TRACE='' line \<and> v \<noteq> [] then Some v else None)"

definition device_info :: "string \<Rightarrow> session \<Rightarrow> session" where
  \<comment> \<open>the loop over the patterns other than \<open>mac\<close>, in the order of the object\<close>
  "device_info line s =
     (let s1 = (case key_pattern ''FIRMWARE_VERSION='' line of
                  Some v \<Rightarrow> s\<lparr>fwVer := v\<rparr> | None \<Rightarrow> s);
          s2 = (case key_pattern ''BLE_MAC='' line of
                  Some v \<Rightarrow> s1\<lparr>bleMac := v\<rparr> | None \<Rightarrow> s1);
          s3 = (case key_pattern ''WIFI_MAC='' line of
                  Some v \<Rightarrow> s2\<lparr>wifiMac := Some v\<rparr> | None \<Rightarrow> s2);
          s4 = (case key_pattern ''WLAN_VERSION='' line of
                  Some v \<Rightarrow> s3\<lparr>wlanFwVer := v\<rparr> | None \<Rightarrow> s3)
      in (case trace_pattern line of Some v \<Rightarrow> s4\<lparr>trace := v\<rparr> | None \<Rightarrow> s4))"

definition identify :: "int \<Rightarrow> string \<Rightarrow> session \<Rightarrow> state \<Rightarrow> state" where
  \<comment> \<open>the body of \<open>if (match && session.mac === CONFIG.SESSION_DEFAULTS.MAC)\<close>, with
     \<open>m\<close> for \<open>match[0]\<close>\<close>
  "identify i m session st =
     (let st1 = update_session i
                  (\<lambda>s. s\<lparr>mac := m, token := filter (\<lambda>c. c \<noteq> CHR '':'') m\<rparr>) st;
          st2 = logToAdmins (''[MAC] '' @ m @ '' '' @ addr session) st1;
          st3 = update_session i
                  (\<lambda>s. s\<lparr>socket := socket_write ''SYS \<newline>'' (socket s)\<rparr>) st2;
          st4 = update_session i
                  (\<lambda>s. s\<lparr>socket := socket_write ''SYS DBG \<newline>'' (socket s)\<rparr>) st3
      in clearTimeout i st4)"

definition on_data :: "int \<Rightarrow> string \<Rightarrow> state \<Rightarrow> state" where
  \<comment> \<open>the \<open>data\<close> handler of the socket of the session \<open>i\<close>\<close>
  "on_data i chunk st =
     (case findSessionById st i of
        None \<Rightarrow> st
      | Some session \<Rightarrow>
          (let line = trim chunk in
           if line = [] then st
           else
             (let st1 = logToAdmins (''[MGS LINE]['' @ show_int (sess_id session) @ '']['' 
                                       @ token session @ ''] '' @ line) st;
                  st2 = (case mac_pattern line of
                           None \<Rightarrow> st1
                         | Some m \<Rightarrow>
                             if mac session = ''NA'' then identify i m session st1 else st1)
              in update_session i (device_info line) st2)))"

definition on_error :: "int \<Rightarrow> string \<Rightarrow> state \<Rightarrow> state" where
  "on_error i e st =
     (case findSessionById st i of
        None \<Rightarrow> st
      | Some session \<Rightarrow>
          logToAdmins (''[ERROR] ID:'' @ show_int (sess_id session) @ '' '' @ e @ '' ''
                       @ mac session @ '' '' @ addr session) st)"

definition on_close :: "int \<Rightarrow> state \<Rightarrow> state" where
  \<comment> \<open>the \<open>close\<close> handler, which Node calls once after the socket is destroyed\<close>
  "on_close i st =
     (case findSessionById st i of
        None \<Rightarrow> st
      | Some session \<Rightarrow>
          (let st1 = clearTimeout i st;
               st2 = update_session i (\<lambda>s. s\<lparr>status := ''close''\<rparr>) st1;
               st3 = logToAdmins (''[CLOSE] ID:'' @ show_int (sess_id session) @ '' ''
                                  @ mac session @ '' '' @ addr session) st2
           in st3\<lparr>sessions := sessions_delete i (sessions st3)\<rparr>))"

definition on_timeout :: "int \<Rightarrow> state \<Rightarrow> state" where
  "on_timeout i st =
     (case findSessionById st i of
        None \<Rightarrow> st
      | Some session \<Rightarrow>
          (let st1 = logToAdmins (''[TIMEOUT] ID:'' @ show_int (sess_id session) @ '' ''
                                  @ mac session @ '' '' @ addr session) st;
               st2 = update_session i
                       (\<lambda>s. s\<lparr>socket := socket_end ''Idle Timeout\<newline>'' (socket s)\<rparr>) st1
           in update_session i (\<lambda>s. s\<lparr>socket := socket_destroy (socket s)\<rparr>) st2))"

definition on_end :: "int \<Rightarrow> state \<Rightarrow> state" where
  "on_end i st =
     (case findSessionById st i of
        None \<Rightarrow> st
      | Some session \<Rightarrow>
          logToAdmins (''[END] ID:'' @ show_int (sess_id session) @ '' ''
                       @ mac session @ '' '' @ addr session) st)"

section \<open>The admin command grammar\<close>

text \<open>
  The regular expressions of \<open>CONFIG.COMMANDS\<close>, each as the function that
  \<open>line.match\<close> computes: \<open>None\<close> for \<open>null\<close>, else the groups. A quantifier over a
  character class is \<open>plus_then\<close> or \<open>star_then\<close>, which try the longest repetition first
  and give characters back while the rest of the expression fails, as the backtracking
  matcher of JavaScript does.
\<close>

definition to_upper :: "char \<Rightarrow> char" where
  "to_upper c =
     (case map_of (zip ''abcdefghijklmnopqrstuvwxyz'' ''ABCDEFGHIJKLMNOPQRSTUVWXYZ'') c of
        None \<Rightarrow> c
      | Some u \<Rightarrow> u)"

definition keyword :: "string \<Rightarrow> string \<Rightarrow> string option" where
  \<comment> \<open>\<open>^kw\<close> under the flag \<open>i\<close>: the rest of the line behind the keyword\<close>
  "keyword kw line =
     (if length kw \<le> length line \<and> map to_upper (take (length kw) line) = map to_upper kw
      then Some (drop (length kw) line) else None)"

fun plus_then :: "(char \<Rightarrow> bool) \<Rightarrow> (string \<Rightarrow> 'a option) \<Rightarrow> string \<Rightarrow> (string \<times> 'a) option" where
  \<comment> \<open>\<open>(C+)\<close> followed by the expression \<open>k\<close>: the group and the result of \<open>k\<close>\<close>
  "plus_then p k [] = None"
| "plus_then p k (c # cs) =
     (if p c then
        (case plus_then p k cs of
           Some (g, r) \<Rightarrow> Some (c # g, r)
         | None \<Rightarrow> map_option (\<lambda>r. ([c], r)) (k cs))
      else None)"

fun star_then :: "(char \<Rightarrow> bool) \<Rightarrow> (string \<Rightarrow> 'a option) \<Rightarrow> string \<Rightarrow> (string \<times> 'a) option" where
  \<comment> \<open>\<open>(C*)\<close> followed by the expression \<open>k\<close>\<close>
  "star_then p k [] = map_option (\<lambda>r. ([], r)) (k [])"
| "star_then p k (c # cs) =
     (case (if p c then star_then p k cs else None) of
        Some (g, r) \<Rightarrow> Some (c # g, r)
      | None \<Rightarrow> map_option (\<lambda>r. ([], r)) (k (c # cs)))"

definition dot_star_end :: "string \<Rightarrow> string option" where
  \<comment> \<open>\<open>(.*)$\<close>\<close>
  "dot_star_end r = (if list_ex is_lt r then None else Some r)"

definition dot_plus_end :: "string \<Rightarrow> string option" where
  \<comment> \<open>\<open>(.+)$\<close>\<close>
  "dot_plus_end r = (if r = [] \<or> list_ex is_lt r then None else Some r)"

definition dot_plus :: "string \<Rightarrow> string option" where
  \<comment> \<open>\<open>(.+)\<close> at the end of an expression\<close>
  "dot_plus r =
     (let v = takeWhile (\<lambda>x. \<not> is_lt x) r in if v = [] then None else Some v)"

definition at_end :: "string \<Rightarrow> unit option" where
  \<comment> \<open>\<open>$\<close>\<close>
  "at_end r = (if r = [] then Some () else None)"

definition is_sep :: "char \<Rightarrow> bool" where
  \<comment> \<open>the character class \<open>[:-]\<close>\<close>
  "is_sep c \<longleftrightarrow> c = CHR '':'' \<or> c = CHR ''-''"

fun mac_targets :: "nat \<Rightarrow> string \<Rightarrow> (string \<times> string) option" where
  \<comment> \<open>the first group of \<open>CMD_MAC\<close>, a MAC address and then \<open>(,MAC)*\<close>: the text matched
     and the rest. The first argument counts the groups \<open>[0-9a-fA-F]{2}[:-]?\<close> that the
     current address still needs, 5 at its start. The repetition stops in front of a comma
     that no address follows; the \<open>\s+\<close> behind the group then fails on the comma.\<close>
  "mac_targets 0 (a # b # cs) =
     (if is_hex a \<and> is_hex b then
        (case cs of
           [] \<Rightarrow> Some ([a, b], cs)
         | c # cs' \<Rightarrow>
             if c = CHR '','' then
               (case mac_targets 5 cs' of
                  Some (m, r) \<Rightarrow> Some (a # b # c # m, r)
                | None \<Rightarrow> Some ([a, b], cs))
             else Some ([a, b], cs))
      else None)"
| "mac_targets (Suc n) (a # b # c # cs) =
     (if is_hex a \<and> is_hex b then
        (if is_sep c then map_option (\<lambda>(m, r). (a # b # c # m, r)) (mac_targets n cs)
         else map_option (\<lambda>(m, r). (a # b # m, r)) (mac_targets n (c # cs)))
      else None)"
| "mac_targets n cs = None"

definition LS :: "string \<Rightarrow> string option" where
  \<comment> \<open>\<open>/^ls\s*(.*)$/i\<close>: the group 1\<close>
  "LS line =
     (case keyword ''ls'' line of
        None \<Rightarrow> None
      | Some r \<Rightarrow> map_option snd (star_then is_space dot_star_end r))"

definition CMD_MAC :: "string \<Rightarrow> (string \<times> string) option" where
  \<comment> \<open>the expression \<open>CMD_MAC\<close>: the groups 1 and 2\<close>
  "CMD_MAC line =
     (case keyword ''cmd'' line of
        None \<Rightarrow> None
      | Some r \<Rightarrow>
          map_option snd
            (plus_then is_space
               (\<lambda>r1. case mac_targets 5 r1 of
                       None \<Rightarrow> None
                     | Some (macs, r2) \<Rightarrow>
                         map_option (\<lambda>(ws, cmd). (macs, cmd))
                           (plus_then is_space dot_plus_end r2)) r))"

definition CMD_ID :: "string \<Rightarrow> (string \<times> string) option" where
  \<comment> \<open>\<open>/^cmd\s+([0-9A-Fa-f,]+)\s+(.+)/i\<close>: the groups 1 and 2\<close>
  "CMD_ID line =
     (case keyword ''cmd'' line of
        None \<Rightarrow> None
      | Some r \<Rightarrow>
          map_option (\<lambda>(ws, ids, ws', cmd). (ids, cmd))
            (plus_then is_space
               (plus_then (\<lambda>c. is_hex c \<or> c = CHR '','')
                  (plus_then is_space dot_plus)) r))"

definition CMDALL :: "string \<Rightarrow> string option" where
  \<comment> \<open>\<open>/^cmdall\s+(.+)$/i\<close>: the group 1\<close>
  "CMDALL line =
     (case keyword ''cmdall'' line of
        None \<Rightarrow> None
      | Some r \<Rightarrow> map_option snd (plus_then is_space dot_plus_end r))"

definition DROP :: "string \<Rightarrow> string option" where
  \<comment> \<open>\<open>/^drop\s+([0-9A-Fa-f]+)$/i\<close>: the group 1\<close>
  "DROP line =
     (case keyword ''drop'' line of
        None \<Rightarrow> None
      | Some r \<Rightarrow>
          map_option (\<lambda>(ws, idStr, u). idStr)
            (plus_then is_space (plus_then is_hex at_end) r))"

section \<open>The admin command processor\<close>

definition session_line :: "int \<Rightarrow> session \<Rightarrow> string" where
  \<comment> \<open>the template \<open>out\<close> of the command \<open>ls\<close>, at the time \<open>now\<close>\<close>
  "session_line now session =
     ''[SESS]['' @ show_int (sess_id session) @ '']['' @ token session @ ''] ''
     @ formatUptime now (start session) @ '' trace: '' @ trace session @ [CHR 0x09]
     @ fwVer session @ [CHR 0x09] @ ''-- '' @ addr session"

definition ls_session :: "int \<Rightarrow> string \<Rightarrow> session \<Rightarrow> state \<Rightarrow> state" where
  "ls_session now opt session st =
     (let out = session_line now session
      in if opt = [] \<or> indexOf out opt \<noteq> None then logToAdmins out st else st)"

definition write_cmd :: "string \<Rightarrow> session \<Rightarrow> state \<Rightarrow> state" where
  \<comment> \<open>\<open>session.socket.write(cmd + "\n")\<close>\<close>
  "write_cmd cmd session st =
     update_session (sess_id session)
       (\<lambda>s. s\<lparr>socket := socket_write (cmd @ ''\<newline>'') (socket s)\<rparr>) st"

definition cmd_mac :: "string \<Rightarrow> string \<Rightarrow> state \<Rightarrow> state" where
  \<comment> \<open>the body of \<open>macs.forEach\<close>\<close>
  "cmd_mac cmd mac0 st =
     (let mac1 = trim mac0 in
      case findSessionByMac st mac1 of
        Some session \<Rightarrow>
          if writable (socket session)
          then write_cmd cmd session (logToAdmins (''[CMD] '' @ cmd) st)
          else logToAdmins (''[CMD ERROR] Device MAC '' @ mac1 @ '' socket not writable.'') st
      | None \<Rightarrow> logToAdmins (''[CMD ERROR] Device MAC '' @ mac1 @ '' not found.'') st)"

definition cmd_id :: "string \<Rightarrow> string \<Rightarrow> state \<Rightarrow> state" where
  \<comment> \<open>the body of \<open>ids.forEach\<close>\<close>
  "cmd_id cmd idStr st =
     (let id = parseId idStr in
      if id = NaN then logToAdmins (''[CMD ERROR] Invalid ID format: '' @ idStr) st
      else
        (case findSessionByNumber st id of
           Some session \<Rightarrow>
             if writable (socket session)
             then write_cmd cmd session (logToAdmins (''[CMD] '' @ cmd) st)
             else logToAdmins
                    (''[CMD ERROR] Device ID '' @ number_text id @ '' socket not writable.'') st
         | None \<Rightarrow>
             logToAdmins (''[CMD ERROR] Device ID '' @ number_text id @ '' not found.'') st))"

definition cmdall_session :: "string \<Rightarrow> int \<Rightarrow> state \<Rightarrow> state" where
  \<comment> \<open>the body of the \<open>forEach\<close> of \<open>cmdall\<close>, for the session stored under \<open>i\<close>\<close>
  "cmdall_session cmd i st =
     (case findSessionById st i of
        None \<Rightarrow> st
      | Some session \<Rightarrow>
          if writable (socket session)
          then write_cmd cmd session
                 (logToAdmins (''[CMD] '' @ show_int (sess_id session) @ '' ''
                               @ addr session @ '' '' @ cmd) st)
          else st)"

definition drop_session :: "string \<Rightarrow> state \<Rightarrow> state" where
  \<comment> \<open>the branch \<open>dropMatch\<close>\<close>
  "drop_session idStr st =
     (let id = parseId idStr in
      if id = NaN then st
      else
        (case findSessionByNumber st id of
           None \<Rightarrow> st
         | Some session \<Rightarrow>
             (let st1 = logToAdmins (''[DROP] '' @ number_text id) st;
                  st2 = update_session (sess_id session)
                          (\<lambda>s. s\<lparr>socket := socket_end ''Connection dropped by admin.\<newline>''
                                                (socket s)\<rparr>) st1
              in update_session (sess_id session)
                   (\<lambda>s. s\<lparr>socket := socket_destroy (socket s)\<rparr>) st2)))"

definition processAdminCommand :: "int \<Rightarrow> string \<Rightarrow> state \<Rightarrow> state" where
  \<comment> \<open>\<open>processAdminCommand(line)\<close> at the time \<open>now\<close>\<close>
  "processAdminCommand now line st =
     (case LS line of
        Some opt \<Rightarrow> foldl (\<lambda>st' session. ls_session now opt session st') st (sessions st)
      | None \<Rightarrow>
     (case CMD_MAC line of
        Some (macs, cmd) \<Rightarrow> foldl (\<lambda>st' mac0. cmd_mac cmd mac0 st') st (split_comma macs)
      | None \<Rightarrow>
     (case CMD_ID line of
        Some (ids, cmd) \<Rightarrow> foldl (\<lambda>st' idStr. cmd_id cmd idStr st') st (split_comma ids)
      | None \<Rightarrow>
     (case CMDALL line of
        Some cmd \<Rightarrow>
          foldl (\<lambda>st' i. cmdall_session cmd i st') st (map sess_id (sessions st))
      | None \<Rightarrow>
     (case DROP line of
        Some idStr \<Rightarrow> drop_session idStr st
      | None \<Rightarrow> st)))))"

definition admin_line :: "int \<Rightarrow> string \<Rightarrow> state \<Rightarrow> state" where
  \<comment> \<open>the \<open>line\<close> handler of an admin connection\<close>
  "admin_line now line st =
     (let trimmedLine = trim line
      in if trimmedLine = [] then st
         else processAdminCommand now trimmedLine (logToAdmins (''[ADMIN] '' @ trimmedLine) st))"

section \<open>The events of the process\<close>

text \<open>
  What the event loop of Node hands to the server, one event at a time: a device
  connection accepted from an address, a chunk of data on the socket of a session, the
  validation timer of a session (which fires only while it is pending), the \<open>error\<close>,
  \<open>close\<close>, \<open>timeout\<close> and \<open>end\<close> events of a socket, a line of an admin connection
  and a line of the local console. The clock is not part of the state: an event that
  reads it (\<open>moment()\<close> for \<open>start\<close> and for the uptime of \<open>ls\<close>) carries the time
  in milliseconds, one reading for one event.
\<close>

datatype event =
    Connect string int
  | Data int string
  | TimerFires int
  | SocketError int string
  | SocketClose int
  | SocketTimeout int
  | SocketEnd int
  | AdminLine int string
  | CliLine int string

fun step :: "event \<Rightarrow> state \<Rightarrow> state" where
  "step (Connect remoteAddress now) st = handleRemoteConnection remoteAddress now st"
| "step (Data i chunk) st = on_data i chunk st"
| "step (TimerFires i) st =
     (if i \<in> set (timers st) then validationTimeout i (clearTimeout i st) else st)"
| "step (SocketError i e) st = on_error i e st"
| "step (SocketClose i) st = on_close i st"
| "step (SocketTimeout i) st = on_timeout i st"
| "step (SocketEnd i) st = on_end i st"
| "step (AdminLine now line) st = admin_line now line st"
| "step (CliLine now line) st = processAdminCommand now line st"

fun run :: "event list \<Rightarrow> state \<Rightarrow> state" where
  "run [] st = st"
| "run (e # es) st = run es (step e st)"

definition session_ids :: "state \<Rightarrow> int list" where
  \<comment> \<open>the \<open>id\<close> of each session object of the Map, in insertion order\<close>
  "session_ids st = map sess_id (sessions st)"

definition registered :: "state \<Rightarrow> state \<Rightarrow> int list" where
  \<comment> \<open>the ids of the sessions that a step has created: the \<open>id\<close> of each session
     object that the Map holds behind the step under a key that it did not hold before\<close>
  "registered st st' = filter (\<lambda>i. i \<notin> set (session_ids st)) (session_ids st')"

fun created_ids :: "event list \<Rightarrow> state \<Rightarrow> int list" where
  \<comment> \<open>the ids of the sessions created during the events, oldest first\<close>
  "created_ids [] st = []"
| "created_ids (e # es) st = registered st (step e st) @ created_ids es (step e st)"

fun is_Connect :: "event \<Rightarrow> bool" where
  "is_Connect (Connect remoteAddress now) = True"
| "is_Connect e = False"

section \<open>Notions used in the statements\<close>

definition identified :: "string \<Rightarrow> session \<Rightarrow> session" where
  \<comment> \<open>the session after its identification by the match \<open>m\<close>\<close>
  "identified m s =
     s\<lparr>mac := m, token := filter (\<lambda>c. c \<noteq> CHR '':'') m,
       socket := socket_write ''SYS DBG \<newline>'' (socket_write ''SYS \<newline>'' (socket s))\<rparr>"

definition mac_events :: "state \<Rightarrow> string list" where
  \<comment> \<open>the identification events among the messages sent to the admins\<close>
  "mac_events st = filter (prefix ''[MAC] '') (adminLog st)"

definition two_devices :: state where
  \<comment> \<open>an example: two devices have connected and sent their MAC addresses\<close>
  "two_devices = run [Connect ''10.0.0.1'' 0, Connect ''10.0.0.2'' 5000,
     Data 1001 ''8C:4F:00:A5:5C:7C\<newline>'', Data 1002 ''AABBCCDDEEFF\<newline>'',
     Data 1001 ''TRACE=15 12''] initial_state"

definition target_view :: "state \<Rightarrow> (int \<times> string \<times> bool) list" where
  \<comment> \<open>what the resolution of a target reads of the registry\<close>
  "target_view st = map (\<lambda>s. (sess_id s, mac s, writable (socket s))) (sessions st)"

definition mac_receiver :: "state \<Rightarrow> string \<Rightarrow> int option" where
  \<comment> \<open>the id of the session that a MAC target sends the command to, if any\<close>
  "mac_receiver st mac0 =
     (case findSessionByMac st (trim mac0) of
        Some s \<Rightarrow> if writable (socket s) then Some (sess_id s) else None
      | None \<Rightarrow> None)"

definition mac_outcome :: "state \<Rightarrow> string \<Rightarrow> string \<Rightarrow> string" where
  \<comment> \<open>the message that a MAC target sends to the admins\<close>
  "mac_outcome st cmd mac0 =
     (case findSessionByMac st (trim mac0) of
        Some s \<Rightarrow>
          if writable (socket s) then ''[CMD] '' @ cmd
          else ''[CMD ERROR] Device MAC '' @ trim mac0 @ '' socket not writable.''
      | None \<Rightarrow> ''[CMD ERROR] Device MAC '' @ trim mac0 @ '' not found.'')"

definition id_receiver :: "state \<Rightarrow> string \<Rightarrow> int option" where
  \<comment> \<open>the id of the session that an id target sends the command to, if any\<close>
  "id_receiver st idStr =
     (case findSessionByNumber st (parseId idStr) of
        Some s \<Rightarrow> if writable (socket s) then Some (sess_id s) else None
      | None \<Rightarrow> None)"

definition id_outcome :: "state \<Rightarrow> string \<Rightarrow> string \<Rightarrow> string" where
  \<comment> \<open>the message that an id target sends to the admins\<close>
  "id_outcome st cmd idStr =
     (if parseId idStr = NaN then ''[CMD ERROR] Invalid ID format: '' @ idStr
      else
        (case findSessionByNumber st (parseId idStr) of
           Some s \<Rightarrow>
             if writable (socket s) then ''[CMD] '' @ cmd
             else ''[CMD ERROR] Device ID '' @ number_text (parseId idStr)
                  @ '' socket not writable.''
         | None \<Rightarrow>
             ''[CMD ERROR] Device ID '' @ number_text (parseId idStr) @ '' not found.''))"

definition deliver :: "string \<Rightarrow> int option list \<Rightarrow> session \<Rightarrow> session" where
  \<comment> \<open>a session after the command was written to it once for each receiver that names it\<close>
  "deliver cmd rs x =
     x\<lparr>socket := (socket x)\<lparr>sent := sent (socket x)
        @ replicate (length (filter (\<lambda>r. r = Some (sess_id x)) rs)) (cmd @ ''\<newline>'')\<rparr>\<rparr>"

definition apply_outcome :: "string \<Rightarrow> int option \<Rightarrow> string \<Rightarrow> state \<Rightarrow> state" where
  \<comment> \<open>one target: its message to the admins and the write to its receiver\<close>
  "apply_outcome cmd r msg st =
     (case r of
        None \<Rightarrow> logToAdmins msg st
      | Some i \<Rightarrow>
          update_session i (\<lambda>s. s\<lparr>socket := socket_write (cmd @ ''\<newline>'') (socket s)\<rparr>)
            (logToAdmins msg st))"

fun join_comma :: "string list \<Rightarrow> string" where
  \<comment> \<open>a target list written out: its elements with commas between them\<close>
  "join_comma [] = []"
| "join_comma [x] = x"
| "join_comma (x # y # zs) = x @ CHR '','' # join_comma (y # zs)"

definition device_1000 :: state where
  \<comment> \<open>an example: the registry holds one session, under the id 1000\<close>
  "device_1000 = initial_state\<lparr>sessions := [new_session 1000 ''10.0.0.8'' 0]\<rparr>"

definition hex_id_device :: state where
  \<comment> \<open>an example: the id of the only session is \<open>0xAABBCCDDEEFF\<close>\<close>
  "hex_id_device = initial_state\<lparr>sessions := [new_session 187723572702975 ''10.0.0.9'' 0]\<rparr>"

section \<open>The registry under the handlers\<close>

lemma find_map_sess:
  assumes "\<And>x. sess_id (f x) = sess_id x"
  shows "find (\<lambda>s. sess_id s = j) (map (\<lambda>x. if sess_id x = i then f x else x) xs)
       = map_option (\<lambda>x. if sess_id x = i then f x else x) (find (\<lambda>s. sess_id s = j) xs)"
  using assms by (induction xs) auto

lemma findSessionById_update_session:
  assumes "\<And>x. sess_id (f x) = sess_id x"
  shows "findSessionById (update_session i f st) j
       = map_option (\<lambda>x. if sess_id x = i then f x else x) (findSessionById st j)"
  using find_map_sess [OF assms] by (simp add: findSessionById_def update_session_def)

lemma sess_id_find: "find (\<lambda>s. sess_id s = i) xs = Some s \<Longrightarrow> sess_id s = i"
  by (induction xs) (auto split: if_splits)

lemma findSessionById_sess_id: "findSessionById st i = Some s \<Longrightarrow> sess_id s = i"
  unfolding findSessionById_def by (rule sess_id_find)

lemma findSessionById_logToAdmins [simp]:
  "findSessionById (logToAdmins m st) j = findSessionById st j"
  by (simp add: findSessionById_def logToAdmins_def)

lemma findSessionById_clearTimeout [simp]:
  "findSessionById (clearTimeout i st) j = findSessionById st j"
  by (simp add: findSessionById_def clearTimeout_def)

lemma adminLog_update_session [simp]: "adminLog (update_session i f st) = adminLog st"
  by (simp add: update_session_def)

lemma timers_update_session [simp]: "timers (update_session i f st) = timers st"
  by (simp add: update_session_def)

lemma timers_logToAdmins [simp]: "timers (logToAdmins m st) = timers st"
  by (simp add: logToAdmins_def)

lemma adminLog_logToAdmins [simp]: "adminLog (logToAdmins m st) = adminLog st @ [m]"
  by (simp add: logToAdmins_def)

lemma sessions_logToAdmins [simp]: "sessions (logToAdmins m st) = sessions st"
  by (simp add: logToAdmins_def)

lemma adminLog_clearTimeout [simp]: "adminLog (clearTimeout i st) = adminLog st"
  by (simp add: clearTimeout_def)

lemma timers_clearTimeout [simp]: "timers (clearTimeout i st) = removeAll i (timers st)"
  by (simp add: clearTimeout_def)

lemma sessions_clearTimeout [simp]: "sessions (clearTimeout i st) = sessions st"
  by (simp add: clearTimeout_def)

lemma find_sessions_delete:
  "find (\<lambda>s. sess_id s = j) (sessions_delete i xs)
     = (if j = i then None else find (\<lambda>s. sess_id s = j) xs)"
  by (induction xs) (auto simp: sessions_delete_def)

lemma on_close_removes: "findSessionById (on_close i st) i = None"
  by (cases "findSessionById st i")
     (simp_all add: on_close_def Let_def findSessionById_def find_sessions_delete)

lemma run_append: "run (es @ fs) st = run fs (run es st)"
  by (induction es arbitrary: st) auto

section \<open>Identification of a device\<close>

lemma device_info_keeps [simp]:
  "sess_id (device_info line s) = sess_id s"
  "mac (device_info line s) = mac s"
  "token (device_info line s) = token s"
  "socket (device_info line s) = socket s"
  "addr (device_info line s) = addr s"
  "start (device_info line s) = start s"
  "status (device_info line s) = status s"
  by (simp_all add: device_info_def Let_def split: option.splits)

lemma identified_keeps [simp]:
  "sess_id (identified m s) = sess_id s"
  "addr (identified m s) = addr s"
  "mac (identified m s) = m"
  "token (identified m s) = filter (\<lambda>c. c \<noteq> CHR '':'') m"
  "sent (socket (identified m s)) = sent (socket s) @ [''SYS \<newline>'', ''SYS DBG \<newline>'']"
  by (simp_all add: identified_def socket_write_def)

lemma identify_session:
  assumes "findSessionById st i = Some s"
  shows "findSessionById (identify i m session st) i = Some (identified m s)"
  using assms findSessionById_sess_id [OF assms]
  by (simp add: identify_def Let_def findSessionById_update_session identified_def)

lemma identify_log:
  "adminLog (identify i m session st) = adminLog st @ [''[MAC] '' @ m @ '' '' @ addr session]"
  by (simp add: identify_def Let_def)

lemma identify_timers: "timers (identify i m session st) = removeAll i (timers st)"
  by (simp add: identify_def Let_def)

lemma on_data_empty: "trim chunk = [] \<Longrightarrow> on_data i chunk st = st"
  by (simp add: on_data_def split: option.splits)

lemma on_data_session:
  assumes "findSessionById st i = Some s" "trim chunk \<noteq> []"
  shows "findSessionById (on_data i chunk st) i =
     Some (device_info (trim chunk)
       (case mac_pattern (trim chunk) of
          None \<Rightarrow> s
        | Some m \<Rightarrow> if mac s = ''NA'' then identified m s else s))"
proof -
  have i: "sess_id s = i" using assms(1) by (rule findSessionById_sess_id)
  show ?thesis
  proof (cases "mac_pattern (trim chunk)")
    case None
    then show ?thesis using assms i
      by (simp add: on_data_def Let_def findSessionById_update_session)
  next
    case (Some m)
    then show ?thesis using assms i
      by (simp add: on_data_def Let_def findSessionById_update_session identify_session)
  qed
qed

lemma on_data_log:
  assumes "findSessionById st i = Some s" "trim chunk \<noteq> []"
  shows "adminLog (on_data i chunk st) =
     adminLog st @ [''[MGS LINE]['' @ show_int i @ '']['' @ token s @ ''] '' @ trim chunk]
     @ (case mac_pattern (trim chunk) of
          None \<Rightarrow> []
        | Some m \<Rightarrow> if mac s = ''NA'' then [''[MAC] '' @ m @ '' '' @ addr s] else [])"
  using assms findSessionById_sess_id [OF assms(1)]
  by (simp add: on_data_def Let_def identify_log split: option.splits)

lemma on_data_timers:
  assumes "findSessionById st i = Some s" "trim chunk \<noteq> []"
  shows "timers (on_data i chunk st) =
     (case mac_pattern (trim chunk) of
        None \<Rightarrow> timers st
      | Some m \<Rightarrow> if mac s = ''NA'' then removeAll i (timers st) else timers st)"
  using assms
  by (simp add: on_data_def Let_def identify_timers split: option.splits)

lemma hexpairs_head:
  "hexpairs n sep cs = Some (m, r) \<Longrightarrow> \<exists>a b t. m = a # b # t \<and> is_hex a"
  by (cases "(n, sep, cs)" rule: hexpairs.cases) (auto split: if_splits)

lemma mac_pattern_head:
  "mac_pattern line = Some m \<Longrightarrow> \<exists>a b t. m = a # b # t \<and> is_hex a"
  by (induction line) (auto split: option.splits dest: hexpairs_head)

lemma mac_pattern_not_NA: "mac_pattern line = Some m \<Longrightarrow> m \<noteq> ''NA''"
  by (auto dest!: mac_pattern_head simp: is_hex_def)

lemma on_data_keeps:
  assumes "findSessionById st i = Some s"
    and "mac_pattern (trim chunk) = None \<or> mac s \<noteq> ''NA''"
  shows "\<exists>s'. findSessionById (on_data i chunk st) i = Some s' \<and> mac s' = mac s
           \<and> token s' = token s \<and> socket s' = socket s \<and> addr s' = addr s
           \<and> timers (on_data i chunk st) = timers st
           \<and> mac_events (on_data i chunk st) = mac_events st"
proof (cases "trim chunk = []")
  case True
  then show ?thesis using assms(1) by (simp add: on_data_empty)
next
  case False
  show ?thesis
    using assms(2) on_data_session [OF assms(1) False] on_data_log [OF assms(1) False]
      on_data_timers [OF assms(1) False]
    by (auto simp: mac_events_def split: option.splits)
qed

lemma run_data_keeps:
  assumes "findSessionById st i = Some s"
    and "\<forall>c \<in> set cs. mac_pattern (trim c) = None \<or> mac s \<noteq> ''NA''"
  shows "\<exists>s'. findSessionById (run (map (Data i) cs) st) i = Some s' \<and> mac s' = mac s
           \<and> token s' = token s \<and> socket s' = socket s \<and> addr s' = addr s
           \<and> timers (run (map (Data i) cs) st) = timers st
           \<and> mac_events (run (map (Data i) cs) st) = mac_events st"
  using assms
proof (induction cs arbitrary: st s)
  case Nil
  then show ?case by simp
next
  case (Cons c cs)
  from Cons.prems obtain s1 where s1: "findSessionById (on_data i c st) i = Some s1"
    "mac s1 = mac s" "token s1 = token s" "socket s1 = socket s" "addr s1 = addr s"
    "timers (on_data i c st) = timers st" "mac_events (on_data i c st) = mac_events st"
    using on_data_keeps [of st i s c] by auto
  have "\<forall>c \<in> set cs. mac_pattern (trim c) = None \<or> mac s1 \<noteq> ''NA''"
    using Cons.prems(2) s1(2) by auto
  from Cons.IH [OF s1(1) this] s1 show ?case by auto
qed

lemma on_data_identifies:
  assumes "findSessionById st i = Some s" "mac s = ''NA''" "mac_pattern (trim chunk) = Some m"
  shows "\<exists>s'. findSessionById (on_data i chunk st) i = Some s' \<and> mac s' = m
           \<and> token s' = filter (\<lambda>c. c \<noteq> CHR '':'') m
           \<and> sent (socket s') = sent (socket s) @ [''SYS \<newline>'', ''SYS DBG \<newline>'']
           \<and> addr s' = addr s
           \<and> timers (on_data i chunk st) = removeAll i (timers st)
           \<and> mac_events (on_data i chunk st) = mac_events st @ [''[MAC] '' @ m @ '' '' @ addr s]"
proof -
  have ne: "trim chunk \<noteq> []" using assms(3) by auto
  show ?thesis
    using assms(2,3) on_data_session [OF assms(1) ne] on_data_log [OF assms(1) ne]
      on_data_timers [OF assms(1) ne]
    by (simp add: mac_events_def)
qed

text \<open>
  Claim C2. On a device connection whose session is still unidentified, the first inbound
  line (a \<open>data\<close> event) that matches the MAC pattern sets \<open>mac\<close> to the match and
  \<open>token\<close> to the match without its colons, writes the two replies \<open>SYS\<close> and
  \<open>SYS DBG\<close> in that order and clears the validation timer. Whatever lines follow, \<open>mac\<close>
  and \<open>token\<close> stay, nothing more is written to the device, and no second
  identification event is sent to the admins.
\<close>

theorem first_mac_line_identifies_once:
  assumes "findSessionById st i = Some s" and "mac s = ''NA''"
    and "\<forall>c \<in> set pre. mac_pattern (trim c) = None"
    and "mac_pattern (trim chunk) = Some m"
  shows "\<exists>s'. findSessionById (run (map (Data i) (pre @ chunk # post)) st) i = Some s'
           \<and> mac s' = m \<and> token s' = filter (\<lambda>c. c \<noteq> CHR '':'') m
           \<and> sent (socket s') = sent (socket s) @ [''SYS \<newline>'', ''SYS DBG \<newline>'']
           \<and> i \<notin> set (timers (run (map (Data i) (pre @ chunk # post)) st))
           \<and> mac_events (run (map (Data i) (pre @ chunk # post)) st)
               = mac_events st @ [''[MAC] '' @ m @ '' '' @ addr s]"
proof -
  let ?st1 = "run (map (Data i) pre) st"
  let ?st2 = "on_data i chunk ?st1"
  obtain s1 where s1: "findSessionById ?st1 i = Some s1" "mac s1 = mac s"
    "socket s1 = socket s" "addr s1 = addr s" "mac_events ?st1 = mac_events st"
    using run_data_keeps [of st i s pre] assms(1,3) by auto
  obtain s2 where s2: "findSessionById ?st2 i = Some s2" "mac s2 = m"
    "token s2 = filter (\<lambda>c. c \<noteq> CHR '':'') m"
    "sent (socket s2) = sent (socket s1) @ [''SYS \<newline>'', ''SYS DBG \<newline>'']"
    "timers ?st2 = removeAll i (timers ?st1)"
    "mac_events ?st2 = mac_events ?st1 @ [''[MAC] '' @ m @ '' '' @ addr s1]"
    using on_data_identifies [of ?st1 i s1 chunk m] s1(1,2) assms(2,4) by auto
  have "mac s2 \<noteq> ''NA''" using s2(2) mac_pattern_not_NA [OF assms(4)] by simp
  then have "\<forall>c \<in> set post. mac_pattern (trim c) = None \<or> mac s2 \<noteq> ''NA''" by simp
  from run_data_keeps [OF s2(1) this] obtain s3 where
    s3: "findSessionById (run (map (Data i) post) ?st2) i = Some s3" "mac s3 = mac s2"
    "token s3 = token s2" "socket s3 = socket s2"
    "timers (run (map (Data i) post) ?st2) = timers ?st2"
    "mac_events (run (map (Data i) post) ?st2) = mac_events ?st2"
    by auto
  have r: "run (map (Data i) (pre @ chunk # post)) st = run (map (Data i) post) ?st2"
    by (simp add: run_append)
  show ?thesis unfolding r using s1 s2 s3 by simp
qed

theorem first_mac_line_identifies_once_witness:
  "findSessionById (handleRemoteConnection ''10.0.0.1'' 0 initial_state) 1001
     = Some (new_session 1001 ''10.0.0.1'' 0)
   \<and> mac (new_session 1001 ''10.0.0.1'' 0) = ''NA''
   \<and> mac_pattern (trim ''FIRMWARE_VERSION=IGS03MP-v3.0.5\<newline>'') = None
   \<and> mac_pattern (trim ''8C:4F:00:A5:5C:7C\<newline>'') = Some ''8C:4F:00:A5:5C:7C''
   \<and> (\<exists>s'. findSessionById
             (run (map (Data 1001)
                ([''FIRMWARE_VERSION=IGS03MP-v3.0.5\<newline>''] @ ''8C:4F:00:A5:5C:7C\<newline>''
                   # [''WIFI_MAC=8C:4F:00:A5:5C:7C\<newline>'', ''F64521CAA396\<newline>'']))
                (handleRemoteConnection ''10.0.0.1'' 0 initial_state)) 1001 = Some s'
           \<and> mac s' = ''8C:4F:00:A5:5C:7C''
           \<and> token s' = filter (\<lambda>c. c \<noteq> CHR '':'') ''8C:4F:00:A5:5C:7C''
           \<and> sent (socket s') = sent (socket (new_session 1001 ''10.0.0.1'' 0))
                                   @ [''SYS \<newline>'', ''SYS DBG \<newline>'']
           \<and> 1001 \<notin> set (timers
               (run (map (Data 1001)
                  ([''FIRMWARE_VERSION=IGS03MP-v3.0.5\<newline>''] @ ''8C:4F:00:A5:5C:7C\<newline>''
                     # [''WIFI_MAC=8C:4F:00:A5:5C:7C\<newline>'', ''F64521CAA396\<newline>'']))
                  (handleRemoteConnection ''10.0.0.1'' 0 initial_state)))
           \<and> mac_events
               (run (map (Data 1001)
                  ([''FIRMWARE_VERSION=IGS03MP-v3.0.5\<newline>''] @ ''8C:4F:00:A5:5C:7C\<newline>''
                     # [''WIFI_MAC=8C:4F:00:A5:5C:7C\<newline>'', ''F64521CAA396\<newline>'']))
                  (handleRemoteConnection ''10.0.0.1'' 0 initial_state))
               = mac_events (handleRemoteConnection ''10.0.0.1'' 0 initial_state)
                 @ [''[MAC] '' @ ''8C:4F:00:A5:5C:7C'' @ '' ''
                    @ addr (new_session 1001 ''10.0.0.1'' 0)])"
proof -
  have h1: "findSessionById (handleRemoteConnection ''10.0.0.1'' 0 initial_state) 1001
     = Some (new_session 1001 ''10.0.0.1'' 0)" by code_simp
  have h2: "mac (new_session 1001 ''10.0.0.1'' 0) = ''NA''" by (simp add: new_session_def)
  have h3: "mac_pattern (trim ''FIRMWARE_VERSION=IGS03MP-v3.0.5\<newline>'') = None"
    by code_simp
  then have h3': "\<forall>c \<in> set [''FIRMWARE_VERSION=IGS03MP-v3.0.5\<newline>'']. mac_pattern (trim c) = None"
    by simp
  have h4: "mac_pattern (trim ''8C:4F:00:A5:5C:7C\<newline>'') = Some ''8C:4F:00:A5:5C:7C''"
    by code_simp
  note c = first_mac_line_identifies_once [OF h1 h2 h3' h4,
      of "[''WIFI_MAC=8C:4F:00:A5:5C:7C\<newline>'', ''F64521CAA396\<newline>'']"]
  show ?thesis by (intro conjI h1 h2 h3 h4 c)
qed

section \<open>The validation timer\<close>

text \<open>
  Claim C3. When the validation timer of a session fires and \<open>mac\<close> is still \<open>NA\<close>, a
  not-valid event is sent to the admins, the rejection \<open>Not Valid\<close> is written to the
  device and the socket is destroyed; the \<open>close\<close> handler that follows removes the
  session from the registry. When \<open>mac\<close> is set, the callback leaves the state as it is.
\<close>

theorem validation_timer_fires:
  assumes "findSessionById st i = Some s"
  shows "if mac s = ''NA''
         then adminLog (validationTimeout i st)
                = adminLog st @ [''[DEV NOT VALID] '' @ addr s @ '' NA'']
              \<and> (\<exists>s'. findSessionById (validationTimeout i st) i = Some s'
                     \<and> sent (socket s') = sent (socket s) @ [''Not Valid\<newline>'']
                     \<and> destroyed (socket s') \<and> \<not> writable (socket s'))
              \<and> findSessionById (on_close i (validationTimeout i st)) i = None
         else validationTimeout i st = st"
  using assms findSessionById_sess_id [OF assms]
  by (simp add: validationTimeout_def Let_def findSessionById_update_session
        socket_end_def socket_destroy_def on_close_removes)

theorem validation_timer_fires_witness:
  "(findSessionById (handleRemoteConnection ''10.0.0.1'' 0 initial_state) 1001
      = Some (new_session 1001 ''10.0.0.1'' 0)
    \<and> mac (new_session 1001 ''10.0.0.1'' 0) = ''NA''
    \<and> adminLog (validationTimeout 1001 (handleRemoteConnection ''10.0.0.1'' 0 initial_state))
        = [''[CONN] ID:1001 10.0.0.1'', ''[DEV NOT VALID] 10.0.0.1 NA''])
   \<and> (findSessionById
        (on_data 1001 ''8C:4F:00:A5:5C:7C'' (handleRemoteConnection ''10.0.0.1'' 0 initial_state))
        1001
      = Some (identified ''8C:4F:00:A5:5C:7C'' (new_session 1001 ''10.0.0.1'' 0))
    \<and> validationTimeout 1001
        (on_data 1001 ''8C:4F:00:A5:5C:7C'' (handleRemoteConnection ''10.0.0.1'' 0 initial_state))
      = on_data 1001 ''8C:4F:00:A5:5C:7C'' (handleRemoteConnection ''10.0.0.1'' 0 initial_state))"
proof -
  have h1: "findSessionById (handleRemoteConnection ''10.0.0.1'' 0 initial_state) 1001
      = Some (new_session 1001 ''10.0.0.1'' 0)" by code_simp
  have m1: "mac (new_session 1001 ''10.0.0.1'' 0) = ''NA''" by (simp add: new_session_def)
  have l1: "adminLog (handleRemoteConnection ''10.0.0.1'' 0 initial_state)
      = [''[CONN] ID:1001 10.0.0.1'']" by code_simp
  have a1: "addr (new_session 1001 ''10.0.0.1'' 0) = ''10.0.0.1''" by (simp add: new_session_def)
  have h2: "findSessionById
        (on_data 1001 ''8C:4F:00:A5:5C:7C'' (handleRemoteConnection ''10.0.0.1'' 0 initial_state))
        1001
      = Some (identified ''8C:4F:00:A5:5C:7C'' (new_session 1001 ''10.0.0.1'' 0))" by code_simp
  have m2: "mac (identified ''8C:4F:00:A5:5C:7C'' (new_session 1001 ''10.0.0.1'' 0)) \<noteq> ''NA''"
    by simp
  from validation_timer_fires [OF h1] m1 l1 a1
  have c1: "adminLog (validationTimeout 1001 (handleRemoteConnection ''10.0.0.1'' 0 initial_state))
        = [''[CONN] ID:1001 10.0.0.1'', ''[DEV NOT VALID] 10.0.0.1 NA'']" by simp
  from validation_timer_fires [OF h2] m2
  have c2: "validationTimeout 1001
        (on_data 1001 ''8C:4F:00:A5:5C:7C'' (handleRemoteConnection ''10.0.0.1'' 0 initial_state))
      = on_data 1001 ''8C:4F:00:A5:5C:7C'' (handleRemoteConnection ''10.0.0.1'' 0 initial_state)"
    by simp
  show ?thesis by (intro conjI h1 m1 c1 h2 c2)
qed

section \<open>The fields of a new session\<close>

text \<open>
  Claim C5. At its creation a session holds \<open>NA\<close> in \<open>trace\<close>, \<open>fwVer\<close>, \<open>bleMac\<close> and
  \<open>wlanFwVer\<close>, but it has no \<open>wifiMac\<close> at all: the object literal leaves the property
  out, although \<open>CONFIG.SESSION_DEFAULTS\<close> declares \<open>WIFI_MAC: "NA"\<close>. The session of the
  first connection shows it.
\<close>

theorem new_session_has_no_wifiMac:
  "map wifiMac (sessions (handleRemoteConnection ''10.0.0.1'' 0 initial_state)) = [None]
   \<and> map trace (sessions (handleRemoteConnection ''10.0.0.1'' 0 initial_state)) = [''NA'']
   \<and> map fwVer (sessions (handleRemoteConnection ''10.0.0.1'' 0 initial_state)) = [''NA'']
   \<and> map bleMac (sessions (handleRemoteConnection ''10.0.0.1'' 0 initial_state)) = [''NA'']
   \<and> map wlanFwVer (sessions (handleRemoteConnection ''10.0.0.1'' 0 initial_state))
       = [''NA'']"
  by code_simp

lemma device_info_overwrites:
  "key_pattern ''FIRMWARE_VERSION='' line = Some v \<Longrightarrow> fwVer (device_info line s) = v"
  "key_pattern ''BLE_MAC='' line = Some v \<Longrightarrow> bleMac (device_info line s) = v"
  "key_pattern ''WIFI_MAC='' line = Some v \<Longrightarrow> wifiMac (device_info line s) = Some v"
  "key_pattern ''WLAN_VERSION='' line = Some v \<Longrightarrow> wlanFwVer (device_info line s) = v"
  "trace_pattern line = Some v \<Longrightarrow> trace (device_info line s) = v"
  by (simp_all add: device_info_def Let_def split: option.splits)

section \<open>Chunks and lines\<close>

text \<open>
  Claim C8. The \<open>data\<close> handler does not split what it receives into lines: it trims the
  chunk and takes it for one line. A chunk that holds the two lines
  \<open>8C:4F:00:A5:5C:7C\<close> and \<open>TRACE=15\<close> is sent to the admins as one message, and its
  second line does not reach the pattern \<open>^TRACE=\<close>, so \<open>trace\<close> stays \<open>NA\<close>; the same
  two lines in two chunks set \<open>trace\<close> to \<open>15\<close>.
\<close>

theorem chunk_of_two_lines_is_one_line:
  "adminLog (run [Connect ''10.0.0.1'' 0,
                  Data 1001 ''8C:4F:00:A5:5C:7C\<newline>TRACE=15\<newline>''] initial_state)
     = [''[CONN] ID:1001 10.0.0.1'',
        ''[MGS LINE][1001][NA] 8C:4F:00:A5:5C:7C\<newline>TRACE=15'',
        ''[MAC] 8C:4F:00:A5:5C:7C 10.0.0.1'']
   \<and> map trace (sessions (run [Connect ''10.0.0.1'' 0,
                  Data 1001 ''8C:4F:00:A5:5C:7C\<newline>TRACE=15\<newline>''] initial_state)) = [''NA'']
   \<and> map trace (sessions (run [Connect ''10.0.0.1'' 0,
                  Data 1001 ''8C:4F:00:A5:5C:7C\<newline>'',
                  Data 1001 ''TRACE=15\<newline>''] initial_state)) = [''15'']"
  by code_simp

section \<open>The session counter\<close>

lemma foldl_keeps: "(\<And>a x. g (f a x) = g a) \<Longrightarrow> g (foldl f a xs) = g a"
  by (induction xs arbitrary: a) auto

lemma sessionIdCounter_basic [simp]:
  "sessionIdCounter (update_session i f st) = sessionIdCounter st"
  "sessionIdCounter (logToAdmins m st) = sessionIdCounter st"
  "sessionIdCounter (clearTimeout i st) = sessionIdCounter st"
  "sessionIdCounter (setTimeout i st) = sessionIdCounter st"
  by (simp_all add: update_session_def logToAdmins_def clearTimeout_def setTimeout_def)

lemma sessionIdCounter_device [simp]:
  "sessionIdCounter (identify i m s st) = sessionIdCounter st"
  "sessionIdCounter (on_data i chunk st) = sessionIdCounter st"
  "sessionIdCounter (validationTimeout i st) = sessionIdCounter st"
  "sessionIdCounter (on_error i e st) = sessionIdCounter st"
  "sessionIdCounter (on_close i st) = sessionIdCounter st"
  "sessionIdCounter (on_timeout i st) = sessionIdCounter st"
  "sessionIdCounter (on_end i st) = sessionIdCounter st"
  by (simp_all add: identify_def on_data_def validationTimeout_def on_error_def on_close_def
        on_timeout_def on_end_def Let_def split: option.splits)

lemma sessionIdCounter_cmds [simp]:
  "sessionIdCounter (ls_session now opt s st) = sessionIdCounter st"
  "sessionIdCounter (write_cmd cmd s st) = sessionIdCounter st"
  "sessionIdCounter (cmd_mac cmd m st) = sessionIdCounter st"
  "sessionIdCounter (cmd_id cmd idStr st) = sessionIdCounter st"
  "sessionIdCounter (cmdall_session cmd i st) = sessionIdCounter st"
  "sessionIdCounter (drop_session idStr st) = sessionIdCounter st"
  by (simp_all add: ls_session_def write_cmd_def cmd_mac_def cmd_id_def cmdall_session_def
        drop_session_def Let_def split: option.splits)

lemma sessionIdCounter_processAdminCommand [simp]:
  "sessionIdCounter (processAdminCommand now line st) = sessionIdCounter st"
  by (simp add: processAdminCommand_def foldl_keeps split: option.splits prod.splits)

lemma sessionIdCounter_admin_line [simp]:
  "sessionIdCounter (admin_line now line st) = sessionIdCounter st"
  by (simp add: admin_line_def Let_def)

lemma sessionIdCounter_handleRemoteConnection [simp]:
  "sessionIdCounter (handleRemoteConnection a now st) = sessionIdCounter st + 1"
  by (simp add: handleRemoteConnection_def Let_def)

lemma session_ids_update_session:
  "(\<And>x. sess_id (f x) = sess_id x) \<Longrightarrow> session_ids (update_session i f st) = session_ids st"
  by (simp add: session_ids_def update_session_def comp_def if_distrib cong: if_cong)

lemma session_ids_basic [simp]:
  "session_ids (logToAdmins m st) = session_ids st"
  "session_ids (clearTimeout i st) = session_ids st"
  "session_ids (setTimeout i st) = session_ids st"
  by (simp_all add: session_ids_def logToAdmins_def clearTimeout_def setTimeout_def)

lemma sess_id_device_info: "sess_id (device_info line s) = sess_id s"
  by (simp add: device_info_def Let_def split: option.splits)

lemma session_ids_identify: "session_ids (identify i m s st) = session_ids st"
  by (simp add: identify_def Let_def session_ids_update_session)

lemma session_ids_device:
  "session_ids (on_data i chunk st) = session_ids st"
  "session_ids (validationTimeout i st) = session_ids st"
  "session_ids (on_error i e st) = session_ids st"
  "session_ids (on_timeout i st) = session_ids st"
  "session_ids (on_end i st) = session_ids st"
  by (simp_all add: on_data_def validationTimeout_def on_error_def on_timeout_def on_end_def
        Let_def session_ids_update_session session_ids_identify sess_id_device_info
        split: option.splits)

lemma session_ids_on_close:
  "set (session_ids (on_close i st)) \<subseteq> set (session_ids st)"
proof (cases "findSessionById st i")
  case None
  then show ?thesis by (simp add: on_close_def)
next
  case (Some s)
  let ?st = "update_session i (\<lambda>s. s\<lparr>status := ''close''\<rparr>) (clearTimeout i st)"
  have u: "session_ids ?st = session_ids st"
    by (simp add: session_ids_update_session)
  have "session_ids (on_close i st) = filter (\<lambda>j. j \<noteq> i) (session_ids ?st)"
    using Some
    by (simp add: on_close_def Let_def session_ids_def sessions_delete_def logToAdmins_def
        filter_map comp_def)
  then show ?thesis unfolding u by simp
qed

lemma session_ids_cmds:
  "session_ids (ls_session now opt s st) = session_ids st"
  "session_ids (write_cmd cmd s st) = session_ids st"
  "session_ids (cmd_mac cmd m st) = session_ids st"
  "session_ids (cmd_id cmd idStr st) = session_ids st"
  "session_ids (cmdall_session cmd i st) = session_ids st"
  "session_ids (drop_session idStr st) = session_ids st"
  by (simp_all add: ls_session_def write_cmd_def cmd_mac_def cmd_id_def cmdall_session_def
        drop_session_def Let_def session_ids_update_session split: option.splits)

lemma session_ids_processAdminCommand:
  "session_ids (processAdminCommand now line st) = session_ids st"
  by (simp add: processAdminCommand_def foldl_keeps session_ids_cmds
      split: option.splits prod.splits)

lemma session_ids_admin_line: "session_ids (admin_line now line st) = session_ids st"
  by (simp add: admin_line_def Let_def session_ids_processAdminCommand)

lemma session_ids_step:
  "\<not> is_Connect e \<Longrightarrow> set (session_ids (step e st)) \<subseteq> set (session_ids st)"
  by (cases e)
     (simp_all add: session_ids_device session_ids_on_close session_ids_processAdminCommand
        session_ids_admin_line)

lemma session_ids_handleRemoteConnection:
  assumes "\<forall>i \<in> set (session_ids st). i \<le> sessionIdCounter st"
  shows "session_ids (handleRemoteConnection a now st)
       = session_ids st @ [sessionIdCounter st + 1]"
proof -
  have "\<not> list_ex (\<lambda>x. sess_id x = sessionIdCounter st + 1) (sessions st)"
    using assms by (auto simp: list_ex_iff session_ids_def)
  then show ?thesis
    by (simp add: handleRemoteConnection_def Let_def session_ids_def sessions_set_def
        setTimeout_def logToAdmins_def new_session_def)
qed

lemma registered_nothing:
  "set (session_ids st') \<subseteq> set (session_ids st) \<Longrightarrow> registered st st' = []"
  by (auto simp: registered_def filter_empty_conv)

lemma upt_0_Suc: "0 # map Suc [0..<n] = [0..<Suc n]"
  by (simp add: map_Suc_upt upt_conv_Cons del: upt_Suc)

lemma created_ids_counts:
  assumes "\<forall>i \<in> set (session_ids st). i \<le> sessionIdCounter st"
  shows "created_ids es st
     = map (\<lambda>k. sessionIdCounter st + 1 + int k) [0..<length (filter is_Connect es)]"
  using assms
proof (induction es arbitrary: st)
  case Nil
  then show ?case by simp
next
  case (Cons e es)
  show ?case
  proof (cases "is_Connect e")
    case True
    then obtain a now where e: "e = Connect a now" by (cases e) simp_all
    let ?st = "step e st"
    let ?n = "length (filter is_Connect es)"
    have ids: "session_ids ?st = session_ids st @ [sessionIdCounter st + 1]"
      using session_ids_handleRemoteConnection [OF Cons.prems] e by simp
    have c: "sessionIdCounter ?st = sessionIdCounter st + 1" using e by simp
    have new: "sessionIdCounter st + 1 \<notin> set (session_ids st)"
      using Cons.prems by auto
    have r: "registered st ?st = [sessionIdCounter st + 1]"
      unfolding registered_def ids using new by simp
    have inv: "\<forall>i \<in> set (session_ids ?st). i \<le> sessionIdCounter ?st"
      unfolding ids c using Cons.prems by auto
    have "created_ids es ?st = map (\<lambda>k. sessionIdCounter st + 1 + 1 + int k) [0..<?n]"
      using Cons.IH [OF inv] unfolding c .
    also have "\<dots> = map (\<lambda>k. sessionIdCounter st + 1 + int k) (map Suc [0..<?n])"
      by simp
    finally have t: "created_ids es ?st
        = map (\<lambda>k. sessionIdCounter st + 1 + int k) (map Suc [0..<?n])" .
    have "created_ids (e # es) st = (sessionIdCounter st + 1) # created_ids es ?st"
      using r by simp
    also have "\<dots> = map (\<lambda>k. sessionIdCounter st + 1 + int k) (0 # map Suc [0..<?n])"
      using t by simp
    finally have "created_ids (e # es) st
        = map (\<lambda>k. sessionIdCounter st + 1 + int k) [0..<Suc ?n]"
      by (simp only: upt_0_Suc)
    then show ?thesis using True by simp
  next
    case False
    let ?st = "step e st"
    have sub: "set (session_ids ?st) \<subseteq> set (session_ids st)"
      using False by (rule session_ids_step)
    have c: "sessionIdCounter ?st = sessionIdCounter st"
      using False by (cases e) simp_all
    have inv: "\<forall>i \<in> set (session_ids ?st). i \<le> sessionIdCounter ?st"
      unfolding c using sub Cons.prems by blast
    have "created_ids (e # es) st = created_ids es ?st"
      using registered_nothing [OF sub] by simp
    then show ?thesis using Cons.IH [OF inv] False unfolding c by simp
  qed
qed

text \<open>
  Claim C4. Whatever events the process sees from its start (connections, data, timers,
  closes, admin lines), every accepted connection adds one session to the registry and no
  other event adds one, and the ids of the sessions added are 1001, 1002, 1003 and so on
  in this order: the first session gets the id 1001, each later session an id larger than
  all before it, and no id is given twice, also after sessions have been closed and
  removed.
\<close>

theorem session_ids_count_up_from_1001:
  "created_ids es initial_state
     = map (\<lambda>k. 1001 + int k) [0..<length (filter is_Connect es)]
   \<and> sorted_wrt (<) (created_ids es initial_state)
   \<and> distinct (created_ids es initial_state)"
proof -
  let ?n = "length (filter is_Connect es)"
  have "\<forall>i \<in> set (session_ids initial_state). i \<le> sessionIdCounter initial_state"
    by (simp add: session_ids_def initial_state_def)
  from created_ids_counts [OF this, of es]
  have e: "created_ids es initial_state = map (\<lambda>k. 1001 + int k) [0..<?n]"
    by (simp add: initial_state_def)
  have s: "sorted_wrt (<) (map (\<lambda>k. 1001 + int k) [0..<?n])"
    by (simp add: sorted_wrt_map sorted_wrt_upt)
  have d: "distinct (map (\<lambda>k. 1001 + int k) [0..<?n])"
    by (simp add: distinct_map inj_on_def)
  show ?thesis using e s d by simp
qed

theorem session_ids_count_up_from_1001_witness:
  "created_ids [Connect ''10.0.0.1'' 0, SocketClose 1001, Connect ''10.0.0.2'' 5,
                Data 1002 ''8C:4F:00:A5:5C:7C'', Connect ''10.0.0.1'' 9] initial_state
     = [1001, 1002, 1003]
   \<and> session_ids (run [Connect ''10.0.0.1'' 0, SocketClose 1001, Connect ''10.0.0.2'' 5,
                Data 1002 ''8C:4F:00:A5:5C:7C'', Connect ''10.0.0.1'' 9] initial_state)
     = [1002, 1003]"
proof -
  have c: "created_ids [Connect ''10.0.0.1'' 0, SocketClose 1001, Connect ''10.0.0.2'' 5,
                Data 1002 ''8C:4F:00:A5:5C:7C'', Connect ''10.0.0.1'' 9] initial_state
     = [1001, 1002, 1003]"
    using session_ids_count_up_from_1001 [of "[Connect ''10.0.0.1'' 0, SocketClose 1001,
      Connect ''10.0.0.2'' 5, Data 1002 ''8C:4F:00:A5:5C:7C'', Connect ''10.0.0.1'' 9]"]
    by (simp add: upt_conv_Cons)
  have r: "session_ids (run [Connect ''10.0.0.1'' 0, SocketClose 1001, Connect ''10.0.0.2'' 5,
                Data 1002 ''8C:4F:00:A5:5C:7C'', Connect ''10.0.0.1'' 9] initial_state)
     = [1002, 1003]"
    by code_simp
  show ?thesis by (intro conjI c r)
qed

section \<open>The command \<open>ls\<close>\<close>

lemma indexOf_sublist: "indexOf out opt \<noteq> None \<longleftrightarrow> sublist opt out"
  by (induction out) (auto simp: sublist_Cons_right)

lemma sessions_cmds [simp]:
  "sessions (ls_session now opt s st) = sessions st"
  by (simp add: ls_session_def Let_def)

lemma ls_sessions_log:
  "adminLog (foldl (\<lambda>st' session. ls_session now opt session st') st xs)
     = adminLog st
       @ map (session_line now) (filter (\<lambda>s. sublist opt (session_line now s)) xs)"
proof (induction xs arbitrary: st)
  case Nil
  then show ?case by simp
next
  case (Cons x xs)
  have "adminLog (ls_session now opt x st)
      = adminLog st @ (if sublist opt (session_line now x) then [session_line now x] else [])"
    using indexOf_sublist [of "session_line now x" opt]
    by (auto simp: ls_session_def Let_def)
  then show ?case using Cons.IH [of "ls_session now opt x st"] by simp
qed

lemma star_then_spaces:
  assumes "list_all p ws" "r = [] \<or> \<not> p (hd r)" "k r = Some x"
  shows "star_then p k (ws @ r) = Some (ws, x)"
  using assms
proof (induction ws)
  case Nil
  then show ?case by (cases r) auto
next
  case (Cons c ws)
  then show ?case by simp
qed


lemma LS_filter:
  assumes "f \<noteq> []" "\<not> is_space (hd f)" "\<not> list_ex is_lt f"
  shows "LS (''ls '' @ f) = Some f"
proof -
  have "star_then is_space dot_star_end ('' '' @ f) = Some ('' '', f)"
    using assms by (intro star_then_spaces) (simp_all add: is_space_def dot_star_end_def)
  then show ?thesis by (simp add: LS_def keyword_def)
qed

text \<open>
  Claim C7. A line that the grammar of \<open>ls\<close> accepts with the filter \<open>opt\<close> changes no
  session and sends to the admins, in the insertion order of the registry, the line
  \<open>[SESS][id][token] days days, HH:MM:SS trace: trace TAB fwVer TAB -- addr\<close> of every
  session when \<open>opt\<close> is empty, and otherwise of exactly the sessions whose line has
  \<open>opt\<close> as a substring.
\<close>

theorem ls_lists_sessions:
  assumes "LS line = Some opt"
  shows "sessions (processAdminCommand now line st) = sessions st
       \<and> adminLog (processAdminCommand now line st)
           = adminLog st
             @ map (session_line now)
                 (filter (\<lambda>s. opt = [] \<or> sublist opt (session_line now s)) (sessions st))
       \<and> (\<forall>s. session_line now s
             = ''[SESS]['' @ show_int (sess_id s) @ '']['' @ token s @ ''] ''
               @ show_int ((now - start s) div 86400000) @ '' days, ''
               @ pad2 ((now - start s) div 3600000 mod 24) @ '':''
               @ pad2 ((now - start s) div 60000 mod 60) @ '':''
               @ pad2 ((now - start s) div 1000 mod 60)
               @ '' trace: '' @ trace s @ [CHR 0x09] @ fwVer s @ [CHR 0x09]
               @ ''-- '' @ addr s)"
proof -
  have p: "processAdminCommand now line st
      = foldl (\<lambda>st' session. ls_session now opt session st') st (sessions st)"
    using assms by (simp add: processAdminCommand_def)
  have f: "(\<lambda>s. opt = [] \<or> sublist opt (session_line now s))
      = (\<lambda>s. sublist opt (session_line now s))"
    by auto
  have "sessions (processAdminCommand now line st) = sessions st"
    unfolding p by (rule foldl_keeps) simp
  moreover have "adminLog (processAdminCommand now line st)
           = adminLog st
             @ map (session_line now)
                 (filter (\<lambda>s. opt = [] \<or> sublist opt (session_line now s)) (sessions st))"
    unfolding p f by (rule ls_sessions_log)
  moreover have "\<forall>s. session_line now s
             = ''[SESS]['' @ show_int (sess_id s) @ '']['' @ token s @ ''] ''
               @ show_int ((now - start s) div 86400000) @ '' days, ''
               @ pad2 ((now - start s) div 3600000 mod 24) @ '':''
               @ pad2 ((now - start s) div 60000 mod 60) @ '':''
               @ pad2 ((now - start s) div 1000 mod 60)
               @ '' trace: '' @ trace s @ [CHR 0x09] @ fwVer s @ [CHR 0x09]
               @ ''-- '' @ addr s"
    by (simp add: session_line_def formatUptime_def Let_def)
  ultimately show ?thesis by blast
qed

theorem ls_lists_sessions_witness:
  "LS ''ls'' = Some []
   \<and> adminLog (processAdminCommand 100000000 ''ls'' two_devices)
       = adminLog two_devices
         @ [''[SESS][1001][8C4F00A55C7C] 1 days, 03:46:40 trace: 15 12'' @ [CHR 0x09] @ ''NA''
              @ [CHR 0x09] @ ''-- 10.0.0.1'',
            ''[SESS][1002][AABBCCDDEEFF] 1 days, 03:46:35 trace: NA'' @ [CHR 0x09] @ ''NA''
              @ [CHR 0x09] @ ''-- 10.0.0.2'']
   \<and> LS ''LS 5C7C'' = Some ''5C7C''
   \<and> adminLog (processAdminCommand 100000000 ''LS 5C7C'' two_devices)
       = adminLog two_devices
         @ [''[SESS][1001][8C4F00A55C7C] 1 days, 03:46:40 trace: 15 12'' @ [CHR 0x09] @ ''NA''
              @ [CHR 0x09] @ ''-- 10.0.0.1'']"
proof -
  have h1: "LS ''ls'' = Some []" by code_simp
  have h2: "LS ''LS 5C7C'' = Some ''5C7C''" by code_simp
  have s: "map (session_line 100000000) (sessions two_devices)
      = [''[SESS][1001][8C4F00A55C7C] 1 days, 03:46:40 trace: 15 12'' @ [CHR 0x09] @ ''NA''
              @ [CHR 0x09] @ ''-- 10.0.0.1'',
         ''[SESS][1002][AABBCCDDEEFF] 1 days, 03:46:35 trace: NA'' @ [CHR 0x09] @ ''NA''
              @ [CHR 0x09] @ ''-- 10.0.0.2'']" by code_simp
  have t: "map (session_line 100000000)
             (filter (\<lambda>s. ''5C7C'' = [] \<or> sublist ''5C7C'' (session_line 100000000 s))
                (sessions two_devices))
      = [''[SESS][1001][8C4F00A55C7C] 1 days, 03:46:40 trace: 15 12'' @ [CHR 0x09] @ ''NA''
              @ [CHR 0x09] @ ''-- 10.0.0.1'']" by code_simp
  have c1: "adminLog (processAdminCommand 100000000 ''ls'' two_devices)
       = adminLog two_devices
         @ [''[SESS][1001][8C4F00A55C7C] 1 days, 03:46:40 trace: 15 12'' @ [CHR 0x09] @ ''NA''
              @ [CHR 0x09] @ ''-- 10.0.0.1'',
            ''[SESS][1002][AABBCCDDEEFF] 1 days, 03:46:35 trace: NA'' @ [CHR 0x09] @ ''NA''
              @ [CHR 0x09] @ ''-- 10.0.0.2'']"
    using ls_lists_sessions [OF h1, of 100000000 two_devices] s by simp
  have c2: "adminLog (processAdminCommand 100000000 ''LS 5C7C'' two_devices)
       = adminLog two_devices
         @ [''[SESS][1001][8C4F00A55C7C] 1 days, 03:46:40 trace: 15 12'' @ [CHR 0x09] @ ''NA''
              @ [CHR 0x09] @ ''-- 10.0.0.1'']"
    using ls_lists_sessions [OF h2, of 100000000 two_devices] t by simp
  show ?thesis by (intro conjI h1 h2 c1 c2)
qed

section \<open>The command \<open>drop\<close>\<close>

lemma keyword_head:
  "keyword kw line = Some r \<Longrightarrow> kw \<noteq> [] \<Longrightarrow> line \<noteq> [] \<and> to_upper (hd line) = to_upper (hd kw)"
  by (cases kw; cases line) (auto simp: keyword_def split: if_splits)

lemma keyword_cmd_not_ls: "keyword ''cmd'' line = Some r \<Longrightarrow> keyword ''ls'' line = None"
  by (cases "keyword ''ls'' line") (auto dest!: keyword_head simp: to_upper_def)

lemma keyword_cmdall_not_ls: "keyword ''cmdall'' line = Some r \<Longrightarrow> keyword ''ls'' line = None"
  by (cases "keyword ''ls'' line") (auto dest!: keyword_head simp: to_upper_def)











section \<open>The command \<open>cmd\<close>\<close>

lemma find_same_view:
  assumes "map v xs = map v ys" and "\<And>a b. v a = v b \<Longrightarrow> P a = P b"
    and "\<And>a b. v a = v b \<Longrightarrow> f a = f b"
  shows "map_option f (find P xs) = map_option f (find P ys)"
  using assms(1)
proof (induction xs arbitrary: ys)
  case Nil
  then show ?case by simp
next
  case (Cons x xs)
  then obtain y ys' where y: "ys = y # ys'" "v x = v y" "map v xs = map v ys'" by auto
  with Cons.IH [of ys'] assms(2) [of x y] assms(3) [of x y] show ?case by auto
qed

lemma findSessionByMac_view:
  assumes "target_view st' = target_view st"
  shows "map_option (\<lambda>s. (sess_id s, writable (socket s))) (findSessionByMac st' m)
       = map_option (\<lambda>s. (sess_id s, writable (socket s))) (findSessionByMac st m)"
  unfolding findSessionByMac_def
  by (rule find_same_view [where v = "\<lambda>s. (sess_id s, mac s, writable (socket s))"])
     (use assms in \<open>auto simp: target_view_def\<close>)

lemma findSessionById_view:
  assumes "target_view st' = target_view st"
  shows "map_option (\<lambda>s. (sess_id s, writable (socket s))) (findSessionById st' i)
       = map_option (\<lambda>s. (sess_id s, writable (socket s))) (findSessionById st i)"
  unfolding findSessionById_def
  by (rule find_same_view [where v = "\<lambda>s. (sess_id s, mac s, writable (socket s))"])
     (use assms in \<open>auto simp: target_view_def\<close>)

lemma mac_receiver_alt:
  "mac_receiver st m =
     (case map_option (\<lambda>s. (sess_id s, writable (socket s))) (findSessionByMac st (trim m)) of
        None \<Rightarrow> None
      | Some (i, w) \<Rightarrow> if w then Some i else None)"
  by (simp add: mac_receiver_def split: option.splits)

lemma mac_outcome_alt:
  "mac_outcome st cmd m =
     (case map_option (\<lambda>s. (sess_id s, writable (socket s))) (findSessionByMac st (trim m)) of
        None \<Rightarrow> ''[CMD ERROR] Device MAC '' @ trim m @ '' not found.''
      | Some (i, w) \<Rightarrow>
          if w then ''[CMD] '' @ cmd
          else ''[CMD ERROR] Device MAC '' @ trim m @ '' socket not writable.'')"
  by (simp add: mac_outcome_def split: option.splits)

lemma findSessionByNumber_view:
  assumes "target_view st' = target_view st"
  shows "map_option (\<lambda>s. (sess_id s, writable (socket s))) (findSessionByNumber st' x)
       = map_option (\<lambda>s. (sess_id s, writable (socket s))) (findSessionByNumber st x)"
  using findSessionById_view [OF assms] by (cases x) (simp_all add: findSessionByNumber_def)

lemma id_receiver_alt:
  "id_receiver st idStr =
     (case map_option (\<lambda>s. (sess_id s, writable (socket s)))
             (findSessionByNumber st (parseId idStr)) of
        None \<Rightarrow> None
      | Some (i, w) \<Rightarrow> if w then Some i else None)"
  by (simp add: id_receiver_def split: option.splits)

lemma id_outcome_alt:
  "id_outcome st cmd idStr =
     (if parseId idStr = NaN then ''[CMD ERROR] Invalid ID format: '' @ idStr
      else
        (case map_option (\<lambda>s. (sess_id s, writable (socket s)))
                (findSessionByNumber st (parseId idStr)) of
           None \<Rightarrow> ''[CMD ERROR] Device ID '' @ number_text (parseId idStr) @ '' not found.''
         | Some (i, w) \<Rightarrow>
             if w then ''[CMD] '' @ cmd
             else ''[CMD ERROR] Device ID '' @ number_text (parseId idStr)
                  @ '' socket not writable.''))"
  by (simp add: id_outcome_def split: option.splits)

lemma target_view_same:
  assumes "target_view st' = target_view st"
  shows "mac_receiver st' m = mac_receiver st m" "mac_outcome st' cmd m = mac_outcome st cmd m"
    "id_receiver st' m = id_receiver st m" "id_outcome st' cmd m = id_outcome st cmd m"
  unfolding mac_receiver_alt mac_outcome_alt id_receiver_alt id_outcome_alt
    findSessionByMac_view [OF assms] findSessionByNumber_view [OF assms]
  by (rule refl)+

lemma cmd_mac_outcome:
  "cmd_mac cmd m st = apply_outcome cmd (mac_receiver st m) (mac_outcome st cmd m) st"
  by (simp add: cmd_mac_def Let_def apply_outcome_def mac_receiver_def mac_outcome_def
      write_cmd_def split: option.splits)

lemma cmd_id_outcome:
  "cmd_id cmd m st = apply_outcome cmd (id_receiver st m) (id_outcome st cmd m) st"
  by (simp add: cmd_id_def Let_def apply_outcome_def id_receiver_def id_outcome_def
      write_cmd_def findSessionByNumber_def split: option.splits)

lemma apply_outcome_view: "target_view (apply_outcome cmd r msg st) = target_view st"
  by (cases r)
     (simp_all add: apply_outcome_def target_view_def update_session_def socket_write_def
        comp_def)

lemma apply_outcome_log: "adminLog (apply_outcome cmd r msg st) = adminLog st @ [msg]"
  by (cases r) (simp_all add: apply_outcome_def)

lemma deliver_Nil: "deliver cmd [] x = x"
  by (simp add: deliver_def)

lemma deliver_Cons:
  "deliver cmd (r # rs) x =
     deliver cmd rs
       (if r = Some (sess_id x) then x\<lparr>socket := socket_write (cmd @ ''\<newline>'') (socket x)\<rparr>
        else x)"
  by (simp add: deliver_def socket_write_def replicate_append_same)

lemma apply_outcome_sessions:
  "map (deliver cmd rs) (sessions (apply_outcome cmd r msg st))
     = map (deliver cmd (r # rs)) (sessions st)"
  by (cases r) (auto simp: apply_outcome_def update_session_def deliver_Cons)

lemma foldl_outcomes:
  assumes "\<And>st st' t. target_view st' = target_view st \<Longrightarrow>
             rcv st' t = rcv st t \<and> out st' t = out st t"
    and "target_view st' = target_view st"
  shows "adminLog (foldl (\<lambda>s t. apply_outcome cmd (rcv s t) (out s t) s) st' ts)
           = adminLog st' @ map (out st) ts
       \<and> sessions (foldl (\<lambda>s t. apply_outcome cmd (rcv s t) (out s t) s) st' ts)
           = map (deliver cmd (map (rcv st) ts)) (sessions st')"
  using assms(2)
proof (induction ts arbitrary: st')
  case Nil
  then show ?case by (simp add: deliver_Nil [abs_def])
next
  case (Cons t ts)
  let ?s1 = "apply_outcome cmd (rcv st' t) (out st' t) st'"
  have v: "target_view ?s1 = target_view st"
    using Cons.prems by (simp add: apply_outcome_view)
  have e: "rcv st' t = rcv st t" "out st' t = out st t"
    using assms(1) [OF Cons.prems] by simp_all
  from Cons.IH [OF v] show ?case
    by (simp add: apply_outcome_log e apply_outcome_sessions [of cmd _ "rcv st t"])
qed

lemma processAdminCommand_CMD_MAC:
  assumes "CMD_MAC line = Some (macs, cmd)"
  shows "processAdminCommand now line st
       = foldl (\<lambda>st' mac0. cmd_mac cmd mac0 st') st (split_comma macs)"
proof -
  obtain r where "keyword ''cmd'' line = Some r"
    using assms by (auto simp: CMD_MAC_def split: option.splits)
  then have "LS line = None" using keyword_cmd_not_ls by (simp add: LS_def)
  then show ?thesis using assms by (simp add: processAdminCommand_def)
qed

lemma processAdminCommand_CMD_ID:
  assumes "CMD_MAC line = None" "CMD_ID line = Some (ids, cmd)"
  shows "processAdminCommand now line st
       = foldl (\<lambda>st' idStr. cmd_id cmd idStr st') st (split_comma ids)"
proof -
  obtain r where "keyword ''cmd'' line = Some r"
    using assms(2) by (auto simp: CMD_ID_def split: option.splits)
  then have "LS line = None" using keyword_cmd_not_ls by (simp add: LS_def)
  then show ?thesis using assms by (simp add: processAdminCommand_def)
qed

lemma cmd_mac_loop:
  "adminLog (foldl (\<lambda>st' mac0. cmd_mac cmd mac0 st') st ms)
     = adminLog st @ map (mac_outcome st cmd) ms
   \<and> sessions (foldl (\<lambda>st' mac0. cmd_mac cmd mac0 st') st ms)
     = map (deliver cmd (map (mac_receiver st) ms)) (sessions st)"
proof -
  have inv: "\<And>sa sb t. target_view sb = target_view sa \<Longrightarrow>
      mac_receiver sb t = mac_receiver sa t \<and> mac_outcome sb cmd t = mac_outcome sa cmd t"
    using target_view_same by blast
  have "foldl (\<lambda>st' mac0. cmd_mac cmd mac0 st') st ms
      = foldl (\<lambda>s t. apply_outcome cmd (mac_receiver s t) (mac_outcome s cmd t) s) st ms"
    by (simp add: cmd_mac_outcome)
  then show ?thesis
    using foldl_outcomes [where rcv = mac_receiver and out = "\<lambda>s. mac_outcome s cmd"
      and st = st and st' = st and cmd = cmd and ts = ms, OF inv refl]
    by simp
qed

lemma cmd_id_loop:
  "adminLog (foldl (\<lambda>st' idStr. cmd_id cmd idStr st') st ids)
     = adminLog st @ map (id_outcome st cmd) ids
   \<and> sessions (foldl (\<lambda>st' idStr. cmd_id cmd idStr st') st ids)
     = map (deliver cmd (map (id_receiver st) ids)) (sessions st)"
proof -
  have inv: "\<And>sa sb t. target_view sb = target_view sa \<Longrightarrow>
      id_receiver sb t = id_receiver sa t \<and> id_outcome sb cmd t = id_outcome sa cmd t"
    using target_view_same by blast
  have "foldl (\<lambda>st' idStr. cmd_id cmd idStr st') st ids
      = foldl (\<lambda>s t. apply_outcome cmd (id_receiver s t) (id_outcome s cmd t) s) st ids"
    by (simp add: cmd_id_outcome)
  then show ?thesis
    using foldl_outcomes [where rcv = id_receiver and out = "\<lambda>s. id_outcome s cmd"
      and st = st and st' = st and cmd = cmd and ts = ids, OF inv refl]
    by simp
qed

section \<open>Session ids in commands\<close>

lemma plus_then_Some:
  assumes "plus_then p k s = Some (g, x)"
  shows "g \<noteq> [] \<and> (\<forall>c \<in> set g. p c) \<and> (\<exists>t. s = g @ t \<and> k t = Some x)"
  using assms
proof (induction s arbitrary: g)
  case Nil
  then show ?case by simp
next
  case (Cons c s)
  then have pc: "p c" by (simp split: if_splits)
  show ?case
  proof (cases "plus_then p k s")
    case None
    with Cons.prems pc have "g = [c]" "k s = Some x" by auto
    with pc show ?thesis by simp
  next
    case (Some a)
    obtain g' x' where a: "a = (g', x')" by (cases a)
    with Cons.prems pc Some have "g = c # g'" "x' = x" by auto
    with Cons.IH [of g'] Some a pc show ?thesis by auto
  qed
qed

lemma DROP_group:
  assumes "DROP line = Some idStr"
  shows "idStr \<noteq> [] \<and> (\<forall>c \<in> set idStr. is_hex c)"
proof -
  from assms obtain r ws u where
    "plus_then is_space (plus_then is_hex at_end) r = Some (ws, idStr, u)"
    by (auto simp: DROP_def split: option.splits)
  from plus_then_Some [OF this] obtain t where
    "plus_then is_hex at_end t = Some (idStr, u)" by blast
  from plus_then_Some [OF this] show ?thesis by blast
qed

lemma CMD_ID_group:
  assumes "CMD_ID line = Some (ids, cmd)"
  shows "\<forall>c \<in> set ids. is_hex c \<or> c = CHR '',''"
proof -
  from assms obtain r ws ws' where
    "plus_then is_space (plus_then (\<lambda>c. is_hex c \<or> c = CHR '','')
        (plus_then is_space dot_plus)) r = Some (ws, ids, ws', cmd)"
    by (auto simp: CMD_ID_def split: option.splits)
  from plus_then_Some [OF this] obtain t where
    "plus_then (\<lambda>c. is_hex c \<or> c = CHR '','') (plus_then is_space dot_plus) t
       = Some (ids, ws', cmd)" by blast
  from plus_then_Some [OF this] show ?thesis by blast
qed

lemma split_comma_not_Nil: "split_comma s \<noteq> []"
  by (induction s) (auto split: list.splits)

lemma split_comma_elems:
  "x \<in> set (split_comma s) \<Longrightarrow> set x \<subseteq> set s - {CHR '',''}"
proof (induction s arbitrary: x)
  case Nil
  then show ?case by simp
next
  case (Cons c s)
  show ?case
  proof (cases "c = CHR '',''")
    case True
    then show ?thesis using Cons by auto
  next
    case False
    obtain y ys where y: "split_comma s = y # ys"
      using split_comma_not_Nil [of s] by (cases "split_comma s") auto
    then have "x = c # y \<or> x \<in> set ys" using Cons.prems False by auto
    then show ?thesis using Cons.IH [of y] Cons.IH [of x] y False by auto
  qed
qed

lemma is_hex_digit16: "is_hex c \<Longrightarrow> is_digit_in 16 c"
  by (auto simp: is_hex_def is_digit_in_def hex_digit_val_def)

lemma is_hex_digit10:
  "is_hex c \<Longrightarrow> c \<notin> set ''ABCDEFabcdef'' \<Longrightarrow> is_digit_in 10 c"
  by (auto simp: is_hex_def is_digit_in_def hex_digit_val_def)

lemma is_hex_plain:
  "is_hex c \<Longrightarrow> \<not> is_space c \<and> c \<noteq> CHR ''-'' \<and> c \<noteq> CHR ''+'' \<and> c \<noteq> CHR ''x'' \<and> c \<noteq> CHR ''X''"
  by (auto simp: is_hex_def is_space_def)

lemma plus_then_intro:
  assumes "ws \<noteq> []" "\<forall>c \<in> set ws. p c" "r = [] \<or> \<not> p (hd r)" "k r = Some x"
  shows "plus_then p k (ws @ r) = Some (ws, x)"
  using assms(1,2)
proof (induction ws)
  case Nil
  then show ?case by simp
next
  case (Cons c ws)
  show ?case
  proof (cases "ws = []")
    case True
    have "plus_then p k r = None" using assms(3) by (cases r) auto
    then show ?thesis using True Cons.prems assms(4) by simp
  next
    case False
    then show ?thesis using Cons by simp
  qed
qed

lemma parseInt_hex_string:
  assumes "s \<noteq> []" "\<forall>c \<in> set s. is_hex c" "\<forall>c \<in> set s. is_digit_in radix c"
  shows "parseInt s radix = to_number False (digits_value radix s)"
proof -
  obtain a t where s: "s = a # t" using assms(1) by (cases s) auto
  have a: "\<not> is_space a" "a \<noteq> CHR ''-''" "a \<noteq> CHR ''+''"
    using is_hex_plain [of a] assms(2) s by auto
  have d: "dropWhile is_space s = s" using a s by simp
  have m: "take 1 s \<noteq> ''-''" "take 1 s \<noteq> ''+''" using a s by auto
  have x: "take 2 s \<noteq> ''0x''" "take 2 s \<noteq> ''0X''"
    using assms(2) is_hex_plain s by (cases t; auto)+
  have t: "takeWhile (is_digit_in radix) s = s"
    using assms(3) by (simp add: takeWhile_eq_all_conv)
  have "parseInt s radix =
      (if takeWhile (is_digit_in radix) s = [] then NaN
       else to_number False (digits_value radix (takeWhile (is_digit_in radix) s)))"
    unfolding parseInt_def Let_def d using m x by simp
  then show ?thesis unfolding t using assms(1) by simp
qed

lemma parseId_hex_string:
  assumes "\<forall>c \<in> set idStr. is_hex c"
  shows "parseId idStr =
     (if idStr = [] then NaN
      else to_number False (digits_value
             (if list_ex (\<lambda>c. c \<in> set ''ABCDEFabcdef'') idStr then 16 else 10) idStr))"
proof -
  let ?letter = "list_ex (\<lambda>c. c \<in> set ''ABCDEFabcdef'') idStr"
  have nox: "\<not> prefix ''0x'' idStr"
  proof
    assume "prefix ''0x'' idStr"
    then obtain t where "idStr = ''0x'' @ t" by (rule prefixE)
    then have "CHR ''x'' \<in> set idStr" by simp
    with assms have "is_hex (CHR ''x'')" by blast
    then show False by (simp add: is_hex_def)
  qed
  have p: "parseId idStr = parseInt idStr (if ?letter then 16 else 10)"
    unfolding parseId_def Let_def using nox by simp
  show ?thesis
  proof (cases "idStr = []")
    case True
    then show ?thesis unfolding p by (simp add: parseInt_def)
  next
    case False
    have "\<forall>c \<in> set idStr. is_digit_in (if ?letter then 16 else 10) c"
    proof (cases ?letter)
      case True
      then show ?thesis using assms is_hex_digit16 by simp
    next
      case F: False
      then have "\<forall>c \<in> set idStr. c \<notin> set ''ABCDEFabcdef''"
        unfolding list_ex_iff by blast
      then have "\<forall>c \<in> set idStr. is_digit_in 10 c" using assms is_hex_digit10 by blast
      then show ?thesis using F by simp
    qed
    from parseInt_hex_string [OF False assms this] False show ?thesis
      unfolding p by simp
  qed
qed

lemma to_number_exact: "v < 9007199254740992 \<Longrightarrow> to_number False v = Fin v"
  by (simp add: to_number_def to_double_def)

lemma to_number_not_NaN: "to_number neg v \<noteq> NaN"
  by (simp add: to_number_def Let_def)

lemma parseId_3E8: "parseId ''3E8'' = Fin 1000"
  by code_simp

lemma parseId_1000: "parseId ''1000'' = Fin 1000"
  by code_simp

lemma show_int_1000: "show_int 1000 = ''1000''"
  by code_simp

lemma mac_targets_not_hex1: "\<not> is_hex a \<Longrightarrow> mac_targets n (a # cs) = None"
  by (cases "(n, a # cs)" rule: mac_targets.cases) auto

lemma mac_targets_not_hex2: "\<not> is_hex b \<Longrightarrow> mac_targets n (a # b # cs) = None"
  by (cases "(n, a # b # cs)" rule: mac_targets.cases) auto

lemma mac_targets_3E8: "mac_targets 5 (''3E8 '' @ payload) = None"
  by (cases payload) (simp_all add: eval_nat_numeral is_hex_def is_sep_def)

lemma mac_targets_1000: "mac_targets 5 (''1000 '' @ payload) = None"
  by (simp add: eval_nat_numeral is_hex_def is_sep_def mac_targets_not_hex1)

lemma is_lt_space: "is_lt c \<Longrightarrow> is_space c"
  by (auto simp: is_lt_def is_space_def)

lemma cmd_group:
  assumes "payload \<noteq> []" "\<not> is_space (hd payload)"
  shows "plus_then is_space dot_plus ('' '' @ payload)
       = Some ('' '', takeWhile (\<lambda>x. \<not> is_lt x) payload)"
proof -
  obtain a t where p: "payload = a # t" using assms(1) by (cases payload) auto
  then have "\<not> is_lt a" using assms(2) is_lt_space by auto
  then have "dot_plus payload = Some (takeWhile (\<lambda>x. \<not> is_lt x) payload)"
    using p by (simp add: dot_plus_def)
  then show ?thesis
    using assms by (intro plus_then_intro) (simp_all add: is_space_def)
qed

lemma cmd_line_1000:
  assumes "payload \<noteq> []" "\<not> is_space (hd payload)"
  shows "processAdminCommand now (''cmd 3E8 '' @ payload) st
           = foldl (\<lambda>st' idStr. cmd_id (takeWhile (\<lambda>x. \<not> is_lt x) payload) idStr st') st
               [''3E8'']"
    and "processAdminCommand now (''cmd 1000 '' @ payload) st
           = foldl (\<lambda>st' idStr. cmd_id (takeWhile (\<lambda>x. \<not> is_lt x) payload) idStr st') st
               [''1000'']"
proof -
  have mac: "CMD_MAC (''cmd 3E8 '' @ payload) = None" "CMD_MAC (''cmd 1000 '' @ payload) = None"
    using mac_targets_3E8 [of payload] mac_targets_1000 [of payload]
    by (simp_all add: CMD_MAC_def keyword_def to_upper_def is_space_def)
  have id1: "CMD_ID (''cmd 3E8 '' @ payload)
      = map_option (\<lambda>(ws, cmd). (''3E8'', cmd)) (plus_then is_space dot_plus ('' '' @ payload))"
    by (simp add: CMD_ID_def keyword_def to_upper_def is_space_def is_hex_def
        split: option.splits)
  have id2: "CMD_ID (''cmd 1000 '' @ payload)
      = map_option (\<lambda>(ws, cmd). (''1000'', cmd)) (plus_then is_space dot_plus ('' '' @ payload))"
    by (simp add: CMD_ID_def keyword_def to_upper_def is_space_def is_hex_def
        split: option.splits)
  have s: "split_comma ''3E8'' = [''3E8'']" "split_comma ''1000'' = [''1000'']" by simp_all
  show "processAdminCommand now (''cmd 3E8 '' @ payload) st
           = foldl (\<lambda>st' idStr. cmd_id (takeWhile (\<lambda>x. \<not> is_lt x) payload) idStr st') st
               [''3E8'']"
    using processAdminCommand_CMD_ID [OF mac(1), of "''3E8''"
        "takeWhile (\<lambda>x. \<not> is_lt x) payload" now st]
    unfolding id1 cmd_group [OF assms] s by simp
  show "processAdminCommand now (''cmd 1000 '' @ payload) st
           = foldl (\<lambda>st' idStr. cmd_id (takeWhile (\<lambda>x. \<not> is_lt x) payload) idStr st') st
               [''1000'']"
    using processAdminCommand_CMD_ID [OF mac(2), of "''1000''"
        "takeWhile (\<lambda>x. \<not> is_lt x) payload" now st]
    unfolding id2 cmd_group [OF assms] s by simp
qed

lemma id_1000:
  assumes "parseId idStr = Fin 1000"
  shows "id_outcome st c idStr =
           (case findSessionById st 1000 of
              Some s \<Rightarrow>
                if writable (socket s) then ''[CMD] '' @ c
                else ''[CMD ERROR] Device ID 1000 socket not writable.''
            | None \<Rightarrow> ''[CMD ERROR] Device ID 1000 not found.'')"
    and "id_receiver st idStr =
           (case findSessionById st 1000 of
              Some s \<Rightarrow> if writable (socket s) then Some 1000 else None
            | None \<Rightarrow> None)"
proof -
  show "id_outcome st c idStr =
           (case findSessionById st 1000 of
              Some s \<Rightarrow>
                if writable (socket s) then ''[CMD] '' @ c
                else ''[CMD ERROR] Device ID 1000 socket not writable.''
            | None \<Rightarrow> ''[CMD ERROR] Device ID 1000 not found.'')"
    by (simp add: id_outcome_def assms findSessionByNumber_def number_text_def show_int_1000
        split: option.splits)
  show "id_receiver st idStr =
           (case findSessionById st 1000 of
              Some s \<Rightarrow> if writable (socket s) then Some 1000 else None
            | None \<Rightarrow> None)"
    using findSessionById_sess_id [of st 1000]
    by (simp add: id_receiver_def assms findSessionByNumber_def split: option.splits)
qed

text \<open>
  Claim C6. A target string that the grammars pass to \<open>parseId\<close> (an element of the id
  list of \<open>cmd\<close>, or the id of \<open>drop\<close>) consists of hexadecimal digits. It is read in
  base 16 when it holds a letter and in base 10 otherwise, to the Number next to the
  integer that its digits denote, which is this integer below \<open>2 ^ 53\<close>; only the empty
  string fails to parse. \<open>cmd 3E8\<close> and \<open>cmd 1000\<close> with a payload that starts with a
  visible character both address the session with the id 1000: when it is registered and
  writable they send the command event to the admins and write the payload, up to its
  first line terminator, to this session, and else they send the error for the id 1000.
  A \<open>cmd\<close> line with an id list sends one message for each element, in the order of
  the list, and writes the command to the sessions found; for an element that does not
  parse this message is the error \<open>Invalid ID format\<close> and nothing is written.
  \<open>drop\<close> leaves the state as it is for a string that does not parse; its grammar
  passes no such string.
\<close>

theorem id_strings_parse_by_detected_base:
  "(CMD_ID line = Some (ids, cmd) \<and> idStr \<in> set (split_comma ids) \<or> DROP line = Some idStr
      \<longrightarrow>
      parseId idStr =
        (if idStr = [] then NaN
         else to_number False (digits_value
                (if list_ex (\<lambda>c. c \<in> set ''ABCDEFabcdef'') idStr then 16 else 10) idStr))
      \<and> (idStr \<noteq> [] \<and> digits_value
                (if list_ex (\<lambda>c. c \<in> set ''ABCDEFabcdef'') idStr then 16 else 10) idStr
              < 9007199254740992 \<longrightarrow>
           parseId idStr = Fin (digits_value
                (if list_ex (\<lambda>c. c \<in> set ''ABCDEFabcdef'') idStr then 16 else 10) idStr)))
   \<and> (payload \<noteq> [] \<and> \<not> is_space (hd payload) \<longrightarrow>
       (\<forall>l \<in> set [''cmd 3E8 '' @ payload, ''cmd 1000 '' @ payload].
          adminLog (processAdminCommand now l st)
            = adminLog st
              @ [case findSessionById st 1000 of
                   Some s \<Rightarrow>
                     if writable (socket s)
                     then ''[CMD] '' @ takeWhile (\<lambda>x. \<not> is_lt x) payload
                     else ''[CMD ERROR] Device ID 1000 socket not writable.''
                 | None \<Rightarrow> ''[CMD ERROR] Device ID 1000 not found.'']
          \<and> sessions (processAdminCommand now l st)
            = map (deliver (takeWhile (\<lambda>x. \<not> is_lt x) payload)
                     [case findSessionById st 1000 of
                        Some s \<Rightarrow> if writable (socket s) then Some 1000 else None
                      | None \<Rightarrow> None])
                (sessions st)))
   \<and> (CMD_MAC line = None \<and> CMD_ID line = Some (ids, cmd) \<longrightarrow>
        adminLog (processAdminCommand now line st)
          = adminLog st @ map (id_outcome st cmd) (split_comma ids)
        \<and> sessions (processAdminCommand now line st)
          = map (deliver cmd (map (id_receiver st) (split_comma ids))) (sessions st))
   \<and> (parseId idStr = NaN \<longrightarrow>
        id_outcome st cmd idStr = ''[CMD ERROR] Invalid ID format: '' @ idStr
        \<and> id_receiver st idStr = None
        \<and> drop_session idStr st = st)
   \<and> (DROP line = Some idStr \<longrightarrow> parseId idStr \<noteq> NaN)"
proof -
  let ?v = "digits_value
              (if list_ex (\<lambda>c. c \<in> set ''ABCDEFabcdef'') idStr then 16 else 10) idStr"
  let ?c = "takeWhile (\<lambda>x. \<not> is_lt x) payload"
  have p1: "parseId idStr = (if idStr = [] then NaN else to_number False ?v)
      \<and> (idStr \<noteq> [] \<and> ?v < 9007199254740992 \<longrightarrow> parseId idStr = Fin ?v)"
    if a: "CMD_ID line = Some (ids, cmd) \<and> idStr \<in> set (split_comma ids)
           \<or> DROP line = Some idStr"
  proof -
    have hex: "\<forall>c \<in> set idStr. is_hex c"
    proof (cases "DROP line = Some idStr")
      case True
      then show ?thesis using DROP_group by blast
    next
      case False
      then have b: "CMD_ID line = Some (ids, cmd)" "idStr \<in> set (split_comma ids)"
        using a by auto
      from split_comma_elems [OF b(2)] have "set idStr \<subseteq> set ids - {CHR '',''}" .
      with CMD_ID_group [OF b(1)] show ?thesis by blast
    qed
    have e: "parseId idStr = (if idStr = [] then NaN else to_number False ?v)"
      using hex by (rule parseId_hex_string)
    then show ?thesis using to_number_exact [of ?v] by simp
  qed
  have p2: "adminLog (processAdminCommand now l st)
            = adminLog st
              @ [case findSessionById st 1000 of
                   Some s \<Rightarrow>
                     if writable (socket s) then ''[CMD] '' @ ?c
                     else ''[CMD ERROR] Device ID 1000 socket not writable.''
                 | None \<Rightarrow> ''[CMD ERROR] Device ID 1000 not found.'']
          \<and> sessions (processAdminCommand now l st)
            = map (deliver ?c
                     [case findSessionById st 1000 of
                        Some s \<Rightarrow> if writable (socket s) then Some 1000 else None
                      | None \<Rightarrow> None])
                (sessions st)"
    if a: "payload \<noteq> [] \<and> \<not> is_space (hd payload)"
      and l: "l \<in> set [''cmd 3E8 '' @ payload, ''cmd 1000 '' @ payload]" for l
  proof -
    from a have b: "payload \<noteq> []" "\<not> is_space (hd payload)" by simp_all
    from l consider "l = ''cmd 3E8 '' @ payload" | "l = ''cmd 1000 '' @ payload" by auto
    then show ?thesis
    proof cases
      case 1
      show ?thesis
        unfolding 1 cmd_line_1000(1) [OF b]
        using cmd_id_loop [of ?c st "[''3E8'']"]
        by (simp add: id_1000 [OF parseId_3E8])
    next
      case 2
      show ?thesis
        unfolding 2 cmd_line_1000(2) [OF b]
        using cmd_id_loop [of ?c st "[''1000'']"]
        by (simp add: id_1000 [OF parseId_1000])
    qed
  qed
  have p3: "adminLog (processAdminCommand now line st)
          = adminLog st @ map (id_outcome st cmd) (split_comma ids)
        \<and> sessions (processAdminCommand now line st)
          = map (deliver cmd (map (id_receiver st) (split_comma ids))) (sessions st)"
    if a: "CMD_MAC line = None \<and> CMD_ID line = Some (ids, cmd)"
  proof -
    have "processAdminCommand now line st
        = foldl (\<lambda>st' idStr. cmd_id cmd idStr st') st (split_comma ids)"
      using a processAdminCommand_CMD_ID by blast
    then show ?thesis using cmd_id_loop [of cmd st "split_comma ids"] by simp
  qed
  have p4: "id_outcome st cmd idStr = ''[CMD ERROR] Invalid ID format: '' @ idStr
        \<and> id_receiver st idStr = None \<and> drop_session idStr st = st"
    if "parseId idStr = NaN"
    using that
    by (simp add: id_outcome_def id_receiver_def drop_session_def findSessionByNumber_def)
  have p5: "parseId idStr \<noteq> NaN" if a: "DROP line = Some idStr"
  proof -
    from DROP_group [OF a] have "idStr \<noteq> []" "\<forall>c \<in> set idStr. is_hex c" by simp_all
    then show ?thesis using parseId_hex_string [of idStr] to_number_not_NaN by simp
  qed
  show ?thesis
    using p1 p2 p3 p4 p5 by blast
qed

theorem id_strings_parse_by_detected_base_witness:
  "CMD_MAC ''cmd 3E9,,1002 PING'' = None
   \<and> CMD_ID ''cmd 3E9,,1002 PING'' = Some (''3E9,,1002'', ''PING'')
   \<and> split_comma ''3E9,,1002'' = [''3E9'', [], ''1002'']
   \<and> parseId ''3E9'' = Fin 1001 \<and> parseId [] = NaN \<and> parseId ''1002'' = Fin 1002
   \<and> adminLog (processAdminCommand 7000 ''cmd 3E9,,1002 PING'' two_devices)
       = adminLog two_devices
         @ [''[CMD] PING'', ''[CMD ERROR] Invalid ID format: '', ''[CMD] PING'']
   \<and> map (sent \<circ> socket) (sessions (processAdminCommand 7000 ''cmd 3E9,,1002 PING'' two_devices))
       = [[''SYS \<newline>'', ''SYS DBG \<newline>'', ''PING\<newline>''],
          [''SYS \<newline>'', ''SYS DBG \<newline>'', ''PING\<newline>'']]
   \<and> drop_session [] two_devices = two_devices
   \<and> DROP ''drop 3e9'' = Some ''3e9'' \<and> parseId ''3e9'' = Fin 1001
   \<and> DROP ''drop 9007199254740993'' = Some ''9007199254740993''
   \<and> parseId ''9007199254740993'' = Fin 9007199254740992
   \<and> parseId ''9007199254740993'' \<noteq> NaN
   \<and> \<not> is_space (hd ''PING'')
   \<and> adminLog (processAdminCommand 7000 ''cmd 3E8 PING'' device_1000) = [''[CMD] PING'']
   \<and> map (sent \<circ> socket) (sessions (processAdminCommand 7000 ''cmd 3E8 PING'' device_1000))
       = [[''PING\<newline>'']]
   \<and> adminLog (processAdminCommand 7000 ''cmd 1000 PING'' device_1000) = [''[CMD] PING'']
   \<and> map (sent \<circ> socket) (sessions (processAdminCommand 7000 ''cmd 1000 PING'' device_1000))
       = [[''PING\<newline>'']]
   \<and> adminLog (processAdminCommand 7000 ''cmd 3E8 PING'' two_devices)
       = adminLog two_devices @ [''[CMD ERROR] Device ID 1000 not found.'']"
proof -
  have m: "CMD_MAC ''cmd 3E9,,1002 PING'' = None" by code_simp
  have h: "CMD_ID ''cmd 3E9,,1002 PING'' = Some (''3E9,,1002'', ''PING'')" by code_simp
  have s: "split_comma ''3E9,,1002'' = [''3E9'', [], ''1002'']" by code_simp
  have d: "DROP ''drop 3e9'' = Some ''3e9''" by code_simp
  have d2: "DROP ''drop 9007199254740993'' = Some ''9007199254740993''" by code_simp
  have v1: "to_number False (digits_value 16 ''3E9'') = Fin 1001" by code_simp
  have v2: "to_number False (digits_value 10 ''1002'') = Fin 1002" by code_simp
  have v3: "to_number False (digits_value 16 ''3e9'') = Fin 1001" by code_simp
  have v4: "to_number False (digits_value 10 ''9007199254740993'') = Fin 9007199254740992"
    by code_simp
  note v = v1 v2 v3 v4
  have e1: "''3E9'' \<in> set (split_comma ''3E9,,1002'')"
   and e2: "[] \<in> set (split_comma ''3E9,,1002'')"
   and e3: "''1002'' \<in> set (split_comma ''3E9,,1002'')" unfolding s by simp_all
  have c1: "parseId ''3E9'' = Fin 1001"
    using id_strings_parse_by_detected_base [of "''cmd 3E9,,1002 PING''" "''3E9,,1002''"
        "''PING''" "''3E9''"] h e1 v by simp
  have c2: "parseId [] = NaN"
    using id_strings_parse_by_detected_base [of "''cmd 3E9,,1002 PING''" "''3E9,,1002''"
        "''PING''" "[]"] h e2 by simp
  have c3: "parseId ''1002'' = Fin 1002"
    using id_strings_parse_by_detected_base [of "''cmd 3E9,,1002 PING''" "''3E9,,1002''"
        "''PING''" "''1002''"] h e3 v by simp
  have c4: "parseId ''3e9'' = Fin 1001"
    using id_strings_parse_by_detected_base [of "''drop 3e9''" _ _ "''3e9''"] d v by simp
  have c5: "parseId ''9007199254740993'' = Fin 9007199254740992"
    using id_strings_parse_by_detected_base [of "''drop 9007199254740993''" _ _
        "''9007199254740993''"] d2 v by simp
  have c5': "parseId ''9007199254740993'' \<noteq> NaN"
    using id_strings_parse_by_detected_base [of "''drop 9007199254740993''" _ _
        "''9007199254740993''"] d2 by blast
  have o: "map (id_outcome two_devices ''PING'') [''3E9'', [], ''1002'']
      = [''[CMD] PING'', ''[CMD ERROR] Invalid ID format: '', ''[CMD] PING'']" by code_simp
  have r: "map (sent \<circ> socket)
             (map (deliver ''PING'' (map (id_receiver two_devices) [''3E9'', [], ''1002'']))
                (sessions two_devices))
      = [[''SYS \<newline>'', ''SYS DBG \<newline>'', ''PING\<newline>''],
         [''SYS \<newline>'', ''SYS DBG \<newline>'', ''PING\<newline>'']]" by code_simp
  have c6: "adminLog (processAdminCommand 7000 ''cmd 3E9,,1002 PING'' two_devices)
       = adminLog two_devices
         @ [''[CMD] PING'', ''[CMD ERROR] Invalid ID format: '', ''[CMD] PING'']"
    using id_strings_parse_by_detected_base [where line = "''cmd 3E9,,1002 PING''"
        and ids = "''3E9,,1002''" and cmd = "''PING''" and st = two_devices and now = 7000]
      m h unfolding s o by blast
  have c7: "map (sent \<circ> socket)
              (sessions (processAdminCommand 7000 ''cmd 3E9,,1002 PING'' two_devices))
       = [[''SYS \<newline>'', ''SYS DBG \<newline>'', ''PING\<newline>''],
          [''SYS \<newline>'', ''SYS DBG \<newline>'', ''PING\<newline>'']]"
    using id_strings_parse_by_detected_base [where line = "''cmd 3E9,,1002 PING''"
        and ids = "''3E9,,1002''" and cmd = "''PING''" and st = two_devices and now = 7000]
      m h r unfolding s by simp
  have c8: "drop_session [] two_devices = two_devices"
    using id_strings_parse_by_detected_base [where idStr = "[]" and st = two_devices] c2
    by blast
  have n: "\<not> is_space (hd ''PING'')" by code_simp
  have t: "takeWhile (\<lambda>x. \<not> is_lt x) ''PING'' = ''PING''" by code_simp
  have f1: "findSessionById device_1000 1000 = Some (new_session 1000 ''10.0.0.8'' 0)"
    by code_simp
  have f2: "findSessionById two_devices 1000 = None" by code_simp
  have a0: "adminLog device_1000 = []" by code_simp
  have w: "writable (socket (new_session 1000 ''10.0.0.8'' 0))" by code_simp
  have q: "map (sent \<circ> socket) (map (deliver ''PING'' [Some 1000]) (sessions device_1000))
      = [[''PING\<newline>'']]" by code_simp
  note k = id_strings_parse_by_detected_base [where payload = "''PING''"
      and st = device_1000 and now = 7000]
  have c9: "adminLog (processAdminCommand 7000 ''cmd 3E8 PING'' device_1000) = [''[CMD] PING'']"
    using k n unfolding t f1 a0 by (simp add: w)
  have c10: "map (sent \<circ> socket)
               (sessions (processAdminCommand 7000 ''cmd 3E8 PING'' device_1000))
       = [[''PING\<newline>'']]"
    using k n q unfolding t f1 a0 by (simp add: w)
  have c11: "adminLog (processAdminCommand 7000 ''cmd 1000 PING'' device_1000)
       = [''[CMD] PING'']"
    using k n unfolding t f1 a0 by (simp add: w)
  have c12: "map (sent \<circ> socket)
               (sessions (processAdminCommand 7000 ''cmd 1000 PING'' device_1000))
       = [[''PING\<newline>'']]"
    using k n q unfolding t f1 a0 by (simp add: w)
  have c13: "adminLog (processAdminCommand 7000 ''cmd 3E8 PING'' two_devices)
       = adminLog two_devices @ [''[CMD ERROR] Device ID 1000 not found.'']"
    using id_strings_parse_by_detected_base [where payload = "''PING''"
      and st = two_devices and now = 7000] n unfolding t f2 by simp
  show ?thesis
    by (intro conjI m h s c1 c2 c3 c6 c7 c8 d c4 d2 c5 c5' n c9 c10 c11 c12 c13)
qed

section \<open>Targets of twelve hexadecimal digits\<close>

lemma is_hex_other:
  "is_hex c \<Longrightarrow> \<not> is_sep c \<and> c \<noteq> CHR '','' \<and> \<not> is_space c \<and> \<not> is_lt c"
  by (auto simp: is_hex_def is_sep_def is_space_def is_lt_def)

lemma twelve:
  assumes "length e = 12"
  obtains h1 h2 h3 h4 h5 h6 h7 h8 h9 h10 h11 h12
  where "e = [h1, h2, h3, h4, h5, h6, h7, h8, h9, h10, h11, h12]"
proof -
  from assms have "\<exists>h1 h2 h3 h4 h5 h6 h7 h8 h9 h10 h11 h12.
      e = [h1, h2, h3, h4, h5, h6, h7, h8, h9, h10, h11, h12]"
    by (simp add: eval_nat_numeral length_Suc_conv) blast
  then show ?thesis using that by blast
qed

lemma mac_targets_elem:
  assumes "length e = 12" "\<forall>c \<in> set e. is_hex c"
  shows "mac_targets 5 (e @ r) =
     (case r of
        [] \<Rightarrow> Some (e, [])
      | c # r' \<Rightarrow>
          if c = CHR '','' then
            (case mac_targets 5 r' of
               Some (m, r'') \<Rightarrow> Some (e @ CHR '','' # m, r'')
             | None \<Rightarrow> Some (e, r))
          else Some (e, r))"
proof -
  from assms(1) obtain h1 h2 h3 h4 h5 h6 h7 h8 h9 h10 h11 h12
    where e: "e = [h1, h2, h3, h4, h5, h6, h7, h8, h9, h10, h11, h12]" by (rule twelve)
  have h: "is_hex h1" "is_hex h2" "is_hex h3" "is_hex h4" "is_hex h5" "is_hex h6"
    "is_hex h7" "is_hex h8" "is_hex h9" "is_hex h10" "is_hex h11" "is_hex h12"
    using assms(2) unfolding e by simp_all
  have s: "\<not> is_sep h3" "\<not> is_sep h5" "\<not> is_sep h7" "\<not> is_sep h9" "\<not> is_sep h11"
    using h is_hex_other by blast+
  show ?thesis
    unfolding e using h s
    by (simp add: eval_nat_numeral split: list.splits option.splits)
qed

lemma mac_targets_join:
  assumes "elems \<noteq> []" "\<forall>e \<in> set elems. length e = 12 \<and> (\<forall>c \<in> set e. is_hex c)"
    and "r = [] \<or> hd r \<noteq> CHR '',''"
  shows "mac_targets 5 (join_comma elems @ r) = Some (join_comma elems, r)"
  using assms(1,2)
proof (induction elems rule: join_comma.induct)
  case 1
  then show ?case by simp
next
  case (2 x)
  then have "length x = 12" "\<forall>c \<in> set x. is_hex c" by simp_all
  from mac_targets_elem [OF this, of r] assms(3) show ?case
    by (cases r) auto
next
  case (3 x y zs)
  then have x: "length x = 12" "\<forall>c \<in> set x. is_hex c" by simp_all
  have "mac_targets 5 (join_comma (y # zs) @ r) = Some (join_comma (y # zs), r)"
    using 3 by simp
  with mac_targets_elem [OF x, of "CHR '','' # join_comma (y # zs) @ r"] show ?case
    by simp
qed

lemma split_comma_plain: "CHR '','' \<notin> set e \<Longrightarrow> split_comma (e @ r) =
    (case split_comma r of [] \<Rightarrow> [e] | x # xs \<Rightarrow> (e @ x) # xs)"
  using split_comma_not_Nil [of r] by (induction e) (auto split: list.splits)

lemma split_comma_join:
  assumes "elems \<noteq> []" "\<forall>e \<in> set elems. CHR '','' \<notin> set e"
  shows "split_comma (join_comma elems) = elems"
  using assms
proof (induction elems rule: join_comma.induct)
  case 1
  then show ?case by simp
next
  case (2 x)
  then show ?case using split_comma_plain [of x "[]"] by simp
next
  case (3 x y zs)
  then have "split_comma (join_comma (y # zs)) = y # zs" by simp
  then show ?case using 3 split_comma_plain [of x "CHR '','' # join_comma (y # zs)"] by simp
qed

lemma keyword_intro:
  "map to_upper kw = map to_upper k \<Longrightarrow> keyword k (kw @ rest) = Some rest"
  using map_eq_imp_length_eq [of to_upper kw to_upper k] by (simp add: keyword_def)

lemma join_comma_head:
  assumes "elems \<noteq> []" "\<forall>e \<in> set elems. length e = 12 \<and> (\<forall>c \<in> set e. is_hex c)"
  shows "join_comma elems @ r \<noteq> [] \<and> is_hex (hd (join_comma elems @ r))"
proof -
  obtain x xs where e: "elems = x # xs" using assms(1) by (cases elems) auto
  then have x: "length x = 12" "\<forall>c \<in> set x. is_hex c" using assms(2) by simp_all
  then obtain a t where "x = a # t" by (cases x) auto
  then show ?thesis using x e by (cases xs) auto
qed

lemma CMD_MAC_bare:
  assumes "map to_upper kw = ''CMD''" "ws \<noteq> []" "\<forall>c \<in> set ws. is_space c"
    and "elems \<noteq> []" "\<forall>e \<in> set elems. length e = 12 \<and> (\<forall>c \<in> set e. is_hex c)"
    and "ws' \<noteq> []" "\<forall>c \<in> set ws'. is_space c"
    and "payload \<noteq> []" "\<not> is_space (hd payload)" "\<not> list_ex is_lt payload"
  shows "CMD_MAC (kw @ ws @ join_comma elems @ ws' @ payload)
       = Some (join_comma elems, payload)"
proof -
  let ?k2 = "plus_then is_space dot_plus_end"
  let ?k1 = "\<lambda>r1. case mac_targets 5 r1 of
                   None \<Rightarrow> None
                 | Some (macs, r2) \<Rightarrow> map_option (\<lambda>(ws, cmd). (macs, cmd)) (?k2 r2)"
  have kw: "keyword ''cmd'' (kw @ ws @ join_comma elems @ ws' @ payload)
      = Some (ws @ join_comma elems @ ws' @ payload)"
    using assms(1) by (intro keyword_intro) (simp add: to_upper_def)
  have p2: "?k2 (ws' @ payload) = Some (ws', payload)"
    using assms(6-10) by (intro plus_then_intro) (simp_all add: dot_plus_end_def)
  have w: "hd (ws' @ payload) \<noteq> CHR '',''"
    using assms(6,7) by (cases ws') (auto simp: is_space_def)
  have m: "mac_targets 5 (join_comma elems @ ws' @ payload)
      = Some (join_comma elems, ws' @ payload)"
    using assms(4,5) w by (intro mac_targets_join) simp_all
  have k1: "?k1 (join_comma elems @ ws' @ payload) = Some (join_comma elems, payload)"
    using m p2 by simp
  have h: "\<not> is_space (hd (join_comma elems @ ws' @ payload))"
    using join_comma_head [OF assms(4,5), of "ws' @ payload"] is_hex_other by blast
  have "plus_then is_space ?k1 (ws @ join_comma elems @ ws' @ payload)
      = Some (ws, join_comma elems, payload)"
    using assms(2,3) h k1 by (intro plus_then_intro) simp_all
  then show ?thesis unfolding CMD_MAC_def kw by simp
qed

lemma trim_plain: "\<forall>c \<in> set e. \<not> is_space c \<Longrightarrow> trim e = e"
proof -
  assume a: "\<forall>c \<in> set e. \<not> is_space c"
  have d: "\<And>xs. \<forall>c \<in> set xs. \<not> is_space c \<Longrightarrow> dropWhile is_space xs = xs"
    by (case_tac xs) auto
  show ?thesis using a by (simp add: trim_def d)
qed

text \<open>
  Claim C10. A \<open>cmd\<close> line whose targets are elements of twelve hexadecimal digits
  without separators, one or several, and whose payload is text of one line, matches the
  MAC grammar, which the dispatcher tries before the id grammar. Every element is then
  looked up as a MAC address by exact comparison with the \<open>mac\<close> of the sessions and
  is never parsed as a session id, whatever ids the sessions have: it sends the command
  to the first session with this \<open>mac\<close>, or the error of a MAC target to the admins.
\<close>

theorem bare_mac_list_is_resolved_by_mac:
  assumes "map to_upper kw = ''CMD''" "ws \<noteq> []" "\<forall>c \<in> set ws. is_space c"
    and "elems \<noteq> []" "\<forall>e \<in> set elems. length e = 12 \<and> (\<forall>c \<in> set e. is_hex c)"
    and "ws' \<noteq> []" "\<forall>c \<in> set ws'. is_space c"
    and "payload \<noteq> []" "\<not> is_space (hd payload)" "\<not> list_ex is_lt payload"
  shows "CMD_MAC (kw @ ws @ join_comma elems @ ws' @ payload)
           = Some (join_comma elems, payload)
       \<and> adminLog (processAdminCommand now (kw @ ws @ join_comma elems @ ws' @ payload) st)
           = adminLog st
             @ map (\<lambda>e. case findSessionByMac st e of
                          Some s \<Rightarrow>
                            if writable (socket s) then ''[CMD] '' @ payload
                            else ''[CMD ERROR] Device MAC '' @ e @ '' socket not writable.''
                        | None \<Rightarrow> ''[CMD ERROR] Device MAC '' @ e @ '' not found.'') elems
       \<and> sessions (processAdminCommand now (kw @ ws @ join_comma elems @ ws' @ payload) st)
           = map (deliver payload
                    (map (\<lambda>e. case findSessionByMac st e of
                                 Some s \<Rightarrow> if writable (socket s) then Some (sess_id s)
                                           else None
                               | None \<Rightarrow> None) elems))
               (sessions st)"
proof -
  let ?line = "kw @ ws @ join_comma elems @ ws' @ payload"
  have m: "CMD_MAC ?line = Some (join_comma elems, payload)"
    using assms by (rule CMD_MAC_bare)
  have "\<forall>e \<in> set elems. CHR '','' \<notin> set e" using assms(5) is_hex_other by blast
  then have s: "split_comma (join_comma elems) = elems"
    using assms(4) by (intro split_comma_join)
  have p: "processAdminCommand now ?line st
      = foldl (\<lambda>st' mac0. cmd_mac payload mac0 st') st elems"
    using processAdminCommand_CMD_MAC [OF m] s by simp
  have t: "trim e = e" if "e \<in> set elems" for e
  proof -
    from that assms(5) have "\<forall>c \<in> set e. is_hex c" by blast
    then have "\<forall>c \<in> set e. \<not> is_space c" using is_hex_other by blast
    then show ?thesis by (rule trim_plain)
  qed
  have o: "map (mac_outcome st payload) elems
      = map (\<lambda>e. case findSessionByMac st e of
                          Some s \<Rightarrow>
                            if writable (socket s) then ''[CMD] '' @ payload
                            else ''[CMD ERROR] Device MAC '' @ e @ '' socket not writable.''
                        | None \<Rightarrow> ''[CMD ERROR] Device MAC '' @ e @ '' not found.'') elems"
    by (rule map_cong [OF refl]) (simp add: mac_outcome_def t split: option.splits)
  have r: "map (mac_receiver st) elems
      = map (\<lambda>e. case findSessionByMac st e of
                                 Some s \<Rightarrow> if writable (socket s) then Some (sess_id s)
                                           else None
                               | None \<Rightarrow> None) elems"
    by (rule map_cong [OF refl]) (simp add: mac_receiver_def t split: option.splits)
  note l = cmd_mac_loop [of payload st elems]
  show ?thesis
    by (intro conjI) (rule m, simp only: p conjunct1 [OF l] o, simp only: p conjunct2 [OF l] r)
qed

lemma parseId_AABBCCDDEEFF: "parseId ''AABBCCDDEEFF'' = Fin 187723572702975"
  by code_simp

theorem bare_mac_list_is_resolved_by_mac_witness:
  "map to_upper ''CMD'' = ''CMD'' \<and> list_all is_space ''  ''
   \<and> list_all (\<lambda>e. length e = 12 \<and> list_all is_hex e) [''AABBCCDDEEFF'', ''112233445566'']
   \<and> list_all is_space '' '' \<and> \<not> is_space (hd ''PING'') \<and> \<not> list_ex is_lt ''PING''
   \<and> adminLog (processAdminCommand 7000 ''CMD  AABBCCDDEEFF,112233445566 PING'' two_devices)
       = adminLog two_devices
         @ [''[CMD] PING'', ''[CMD ERROR] Device MAC 112233445566 not found.'']
   \<and> parseId ''AABBCCDDEEFF'' = Fin 187723572702975
   \<and> map sess_id (sessions hex_id_device) = [187723572702975]
   \<and> adminLog (processAdminCommand 7000 ''cmd AABBCCDDEEFF PING'' hex_id_device)
       = [''[CMD ERROR] Device MAC AABBCCDDEEFF not found.'']"
proof -
  have h1: "map to_upper ''CMD'' = ''CMD''" by code_simp
  have h1': "map to_upper ''cmd'' = ''CMD''" by code_simp
  have h2: "''  '' \<noteq> []" "'' '' \<noteq> []" "''PING'' \<noteq> []" by simp_all
  have h3: "list_all is_space ''  ''" "list_all is_space '' ''" by code_simp+
  have h5: "list_all (\<lambda>e. length e = 12 \<and> list_all is_hex e)
              [''AABBCCDDEEFF'', ''112233445566'']" by code_simp
  have h5': "list_all (\<lambda>e. length e = 12 \<and> list_all is_hex e) [''AABBCCDDEEFF'']"
    using h5 by simp
  have h9: "\<not> is_space (hd ''PING'')" by code_simp
  have h10: "\<not> list_ex is_lt ''PING''" by code_simp
  have e2: "[''AABBCCDDEEFF'', ''112233445566''] \<noteq> []" "[''AABBCCDDEEFF''] \<noteq> []" by simp_all
  have l1: "''CMD'' @ ''  '' @ join_comma [''AABBCCDDEEFF'', ''112233445566''] @ '' '' @ ''PING''
      = ''CMD  AABBCCDDEEFF,112233445566 PING''" by simp
  have l2: "''cmd'' @ '' '' @ join_comma [''AABBCCDDEEFF''] @ '' '' @ ''PING''
      = ''cmd AABBCCDDEEFF PING''" by simp
  have v1: "map (\<lambda>e. case findSessionByMac two_devices e of
                          Some s \<Rightarrow>
                            if writable (socket s) then ''[CMD] '' @ ''PING''
                            else ''[CMD ERROR] Device MAC '' @ e @ '' socket not writable.''
                        | None \<Rightarrow> ''[CMD ERROR] Device MAC '' @ e @ '' not found.'')
              [''AABBCCDDEEFF'', ''112233445566'']
      = [''[CMD] PING'', ''[CMD ERROR] Device MAC 112233445566 not found.'']" by code_simp
  have v2: "map (\<lambda>e. case findSessionByMac hex_id_device e of
                          Some s \<Rightarrow>
                            if writable (socket s) then ''[CMD] '' @ ''PING''
                            else ''[CMD ERROR] Device MAC '' @ e @ '' socket not writable.''
                        | None \<Rightarrow> ''[CMD ERROR] Device MAC '' @ e @ '' not found.'')
              [''AABBCCDDEEFF'']
      = [''[CMD ERROR] Device MAC AABBCCDDEEFF not found.'']"
    by (simp add: hex_id_device_def findSessionByMac_def new_session_def initial_state_def)
  have a0: "adminLog hex_id_device = []"
    by (simp add: hex_id_device_def initial_state_def)
  have s0: "map sess_id (sessions hex_id_device) = [187723572702975]"
    by (simp add: hex_id_device_def new_session_def)
  have c1: "adminLog (processAdminCommand 7000 ''CMD  AABBCCDDEEFF,112233445566 PING''
                        two_devices)
       = adminLog two_devices
         @ [''[CMD] PING'', ''[CMD ERROR] Device MAC 112233445566 not found.'']"
    using bare_mac_list_is_resolved_by_mac [where kw = "''CMD''" and ws = "''  ''"
        and elems = "[''AABBCCDDEEFF'', ''112233445566'']" and ws' = "'' ''"
        and payload = "''PING''" and st = two_devices and now = 7000,
        OF h1 h2(1) h3(1) [unfolded list_all_iff] e2(1) h5 [unfolded list_all_iff]
           h2(2) h3(2) [unfolded list_all_iff] h2(3) h9 h10]
    unfolding l1 v1 by (rule conjunct1 [OF conjunct2])
  have c2: "adminLog (processAdminCommand 7000 ''cmd AABBCCDDEEFF PING'' hex_id_device)
       = [''[CMD ERROR] Device MAC AABBCCDDEEFF not found.'']"
    using bare_mac_list_is_resolved_by_mac [where kw = "''cmd''" and ws = "'' ''"
        and elems = "[''AABBCCDDEEFF'']" and ws' = "'' ''"
        and payload = "''PING''" and st = hex_id_device and now = 7000,
        OF h1' h2(2) h3(2) [unfolded list_all_iff] e2(2) h5' [unfolded list_all_iff]
           h2(2) h3(2) [unfolded list_all_iff] h2(3) h9 h10]
    unfolding l2 v2 a0 by simp
  show ?thesis
    by (intro conjI h1 h3 h5 h9 h10 c1 parseId_AABBCCDDEEFF s0 c2)
qed

section \<open>Target lists that mix ids and MAC addresses\<close>

text \<open>
  Claim C1 says that each element of a target list is resolved by its own kind, an id or
  a MAC address, as the README shows for the list \<open>1001,1002,AABBCCDDEEFF\<close>. The
  dispatcher decides the kind once for the whole line. Two sessions are connected, 1001
  with the MAC address \<open>8C:4F:00:A5:5C:7C\<close> and 1002 with \<open>AABBCCDDEEFF\<close>. In the list
  \<open>1001,AABBCCDDEEFF\<close> the second element is parsed as the session id 187723572702975
  and reported as not found, and the session with this MAC address receives nothing. The
  list \<open>1002,8C:4F:00:A5:5C:7C\<close> matches neither grammar: the line is ignored, without
  a message and without a write.
\<close>

theorem mixed_target_list_is_not_resolved_by_kind:
  "findSessionById two_devices 1001 \<noteq> None
   \<and> findSessionByMac two_devices ''AABBCCDDEEFF'' \<noteq> None
   \<and> CMD_MAC ''cmd 1001,AABBCCDDEEFF PING'' = None
   \<and> CMD_ID ''cmd 1001,AABBCCDDEEFF PING'' = Some (''1001,AABBCCDDEEFF'', ''PING'')
   \<and> adminLog (processAdminCommand 7000 ''cmd 1001,AABBCCDDEEFF PING'' two_devices)
       = adminLog two_devices
         @ [''[CMD] PING'', ''[CMD ERROR] Device ID 187723572702975 not found.'']
   \<and> map mac
         (sessions (processAdminCommand 7000 ''cmd 1001,AABBCCDDEEFF PING'' two_devices))
       = [''8C:4F:00:A5:5C:7C'', ''AABBCCDDEEFF'']
   \<and> map (sent \<circ> socket)
         (sessions (processAdminCommand 7000 ''cmd 1001,AABBCCDDEEFF PING'' two_devices))
       = [[''SYS \<newline>'', ''SYS DBG \<newline>'', ''PING\<newline>''],
          [''SYS \<newline>'', ''SYS DBG \<newline>'']]
   \<and> findSessionById two_devices 1002 \<noteq> None
   \<and> findSessionByMac two_devices ''8C:4F:00:A5:5C:7C'' \<noteq> None
   \<and> CMD_MAC ''cmd 1002,8C:4F:00:A5:5C:7C PING'' = None
   \<and> CMD_ID ''cmd 1002,8C:4F:00:A5:5C:7C PING'' = None
   \<and> processAdminCommand 7000 ''cmd 1002,8C:4F:00:A5:5C:7C PING'' two_devices = two_devices"
  by code_simp

end
